theory Spec2Isabelle
  imports Complex_Main
begin

section \<open>The streaming client of the Excel agent\<close>

text \<open>
  The repository has two browser clients with the same reducer: \<^verbatim>\<open>ExcelAgentWithSSE\<close>
  (\<^verbatim>\<open>frontend/app.js\<close>, one \<^verbatim>\<open>EventSource\<close> per question) and the WebSocket
  \<^verbatim>\<open>ExcelAgent\<close>. Both keep the live section of each content type in the object
  \<^verbatim>\<open>this.activeComponents\<close> and mutate DOM nodes through the references stored there.
  The model passes the state explicitly. DOM nodes are held in a store
  (\<open>containers\<close>, a node is its index), so that two references to one node alias as
  they do in the browser. An exception is a value: every operation returns the
  exception raised, if any, together with the state as mutated up to that point,
  which is what the \<^verbatim>\<open>catch\<close> blocks of the source observe.
\<close>

subsection \<open>JavaScript values\<close>

text \<open>
  The values \<^verbatim>\<open>JSON.parse\<close> produces, and \<^verbatim>\<open>undefined\<close> for an absent property.
  An object is its list of own properties in enumeration order. A number is a
  rational: every finite double is one, and no property below depends on rounding.
\<close>

datatype jsval =
    JUndefined
  | JNull
  | JBool bool
  | JNum rat
  | JStr string
  | JArr "jsval list"
  | JObj "(string \<times> jsval) list"

datatype js_error = TypeError | SyntaxError

text \<open>\<^verbatim>\<open>Array.isArray(v)\<close> and \<^verbatim>\<open>typeof v === 'object'\<close> (true of \<^verbatim>\<open>null\<close> as well).\<close>

fun isArray :: "jsval \<Rightarrow> bool" where
  "isArray (JArr xs) = True"
| "isArray v = False"

fun typeof_object :: "jsval \<Rightarrow> bool" where
  "typeof_object JNull = True"
| "typeof_object (JArr xs) = True"
| "typeof_object (JObj kvs) = True"
| "typeof_object v = False"

text \<open>Truthiness, and \<^verbatim>\<open>a || b\<close>.\<close>

fun truthy :: "jsval \<Rightarrow> bool" where
  "truthy JUndefined = False"
| "truthy JNull = False"
| "truthy (JBool b) = b"
| "truthy (JNum r) = (r \<noteq> 0)"
| "truthy (JStr s) = (s \<noteq> [])"
| "truthy (JArr xs) = True"
| "truthy (JObj kvs) = True"

definition js_or :: "jsval \<Rightarrow> jsval \<Rightarrow> jsval" where
  "js_or a b = (if truthy a then a else b)"

text \<open>
  Reading a property (\<^verbatim>\<open>data.code\<close>, or one name of a destructuring pattern):
  a \<^verbatim>\<open>TypeError\<close> on \<^verbatim>\<open>null\<close> and \<^verbatim>\<open>undefined\<close>, the own property of an object,
  \<^verbatim>\<open>undefined\<close> otherwise. The names read by the clients (\<^verbatim>\<open>code\<close>, \<^verbatim>\<open>data\<close>,
  \<^verbatim>\<open>answer\<close>, \<^verbatim>\<open>finished\<close>, \<^verbatim>\<open>content_type\<close>, \<^verbatim>\<open>content_status\<close>) are not
  properties of any prototype.
\<close>

fun get_prop :: "jsval \<Rightarrow> string \<Rightarrow> js_error + jsval" where
  "get_prop JUndefined k = Inl TypeError"
| "get_prop JNull k = Inl TypeError"
| "get_prop (JObj kvs) k = Inr (case map_of kvs k of None \<Rightarrow> JUndefined | Some v \<Rightarrow> v)"
| "get_prop v k = Inr JUndefined"

definition digit_char :: "nat \<Rightarrow> char" where
  "digit_char d = ''0123456789'' ! d"

fun string_of_nat :: "nat \<Rightarrow> string" where
  "string_of_nat n =
     (if n < 10 then [digit_char n]
      else string_of_nat (n div 10) @ [digit_char (n mod 10)])"

text \<open>
  \<^verbatim>\<open>Object.keys\<close> and \<^verbatim>\<open>Object.values\<close>: a \<^verbatim>\<open>TypeError\<close> on \<^verbatim>\<open>null\<close> and
  \<^verbatim>\<open>undefined\<close>; the indices and the elements of an array or a string; nothing for a
  number or a boolean.
\<close>

fun Object_keys :: "jsval \<Rightarrow> js_error + string list" where
  "Object_keys JUndefined = Inl TypeError"
| "Object_keys JNull = Inl TypeError"
| "Object_keys (JObj kvs) = Inr (map fst kvs)"
| "Object_keys (JArr xs) = Inr (map string_of_nat [0..<length xs])"
| "Object_keys (JStr s) = Inr (map string_of_nat [0..<length s])"
| "Object_keys v = Inr []"

fun Object_values :: "jsval \<Rightarrow> js_error + jsval list" where
  "Object_values JUndefined = Inl TypeError"
| "Object_values JNull = Inl TypeError"
| "Object_values (JObj kvs) = Inr (map snd kvs)"
| "Object_values (JArr xs) = Inr xs"
| "Object_values (JStr s) = Inr (map (\<lambda>c. JStr [c]) s)"
| "Object_values v = Inr []"

subsection \<open>The regular expressions of the source\<close>

text \<open>
  Strings are lists of 8-bit characters; among them the line terminators, which
  \<^verbatim>\<open>.\<close> does not match, are \<^verbatim>\<open>\n\<close> and \<^verbatim>\<open>\r\<close>.
\<close>

definition is_line_terminator :: "char \<Rightarrow> bool" where
  "is_line_terminator c = (c = CHR 0x0A \<or> c = CHR 0x0D)"

definition starts_with :: "string \<Rightarrow> string \<Rightarrow> bool" where
  "starts_with d s = (take (length d) s = d)"

text \<open>
  \<^verbatim>\<open>(.*?)\<close> followed by the literal \<open>d\<close>: the shortest run of characters that are
  not line terminators up to the next \<open>d\<close>; the result is the group and the text
  after \<open>d\<close>.
\<close>

fun lazy_until :: "string \<Rightarrow> string \<Rightarrow> (string \<times> string) option" where
  "lazy_until d [] = (if d = [] then Some ([], []) else None)"
| "lazy_until d (c # cs) =
     (if starts_with d (c # cs) then Some ([], drop (length d) (c # cs))
      else if is_line_terminator c then None
      else (case lazy_until d cs of
              None \<Rightarrow> None
            | Some (inner, rest) \<Rightarrow> Some (c # inner, rest)))"

lemma lazy_until_length:
  "lazy_until d s = Some (inner, rest) \<Longrightarrow> length rest \<le> length s"
  by (induction s arbitrary: inner) (auto split: if_splits option.splits)

text \<open>
  \<^verbatim>\<open>s.replace(/D(.*?)D/g, 'L$1R')\<close> for a literal delimiter \<open>D\<close>: matches are taken
  from left to right and do not overlap; where no match starts, the character is
  kept.
\<close>

function replace_delimited :: "string \<Rightarrow> string \<Rightarrow> string \<Rightarrow> string \<Rightarrow> string" where
  "replace_delimited d l r [] = []"
| "replace_delimited d l r (c # cs) =
     (if d \<noteq> [] \<and> starts_with d (c # cs) then
        (case lazy_until d (drop (length d) (c # cs)) of
           None \<Rightarrow> c # replace_delimited d l r cs
         | Some (inner, rest) \<Rightarrow> l @ inner @ r @ replace_delimited d l r rest)
      else c # replace_delimited d l r cs)"
  by pat_completeness auto
termination
proof (relation "measure (\<lambda>(d, l, r, s). length s)")
  show "wf (measure (\<lambda>(d, l, r, s). length s))" by simp
next
  fix d l r :: string and c :: char and cs :: string
  show "((d, l, r, cs), (d, l, r, c # cs)) \<in> measure (\<lambda>(d, l, r, s). length s)" by simp
next
  fix d l r :: string and c :: char and cs :: string and x2 x y
  assume "d \<noteq> [] \<and> starts_with d (c # cs)"
    and "lazy_until d (drop (length d) (c # cs)) = Some x2" and "(x, y) = x2"
  then have "length y \<le> length (drop (length d) (c # cs))" and "d \<noteq> []"
    using lazy_until_length [of d "drop (length d) (c # cs)" x y] by auto
  then have "length y < length (c # cs)"
    by (cases d) auto
  then show "((d, l, r, y), (d, l, r, c # cs)) \<in> measure (\<lambda>(d, l, r, s). length s)" by simp
next
  fix d l r :: string and c :: char and cs :: string
  show "((d, l, r, cs), (d, l, r, c # cs)) \<in> measure (\<lambda>(d, l, r, s). length s)" by simp
qed

text \<open>\<^verbatim>\<open>s.replace(/\n/g, '<br>')\<close>.\<close>

fun replace_newlines :: "string \<Rightarrow> string" where
  "replace_newlines [] = []"
| "replace_newlines (c # cs) =
     (if c = CHR 0x0A then ''<br>'' @ replace_newlines cs else c # replace_newlines cs)"

text \<open>
  \<^verbatim>\<open>formatText(text)\<close>: bold, then italic, then line breaks (\<open>markup\<close> is the
  chain of the three \<^verbatim>\<open>replace\<close> calls). \<^verbatim>\<open>text.replace\<close> is a \<^verbatim>\<open>TypeError\<close> for
  every value that is not a string.
\<close>

definition markup :: "string \<Rightarrow> string" where
  "markup s =
     replace_newlines
       (replace_delimited ''*'' ''<em>'' ''</em>''
          (replace_delimited ''**'' ''<strong>'' ''</strong>'' s))"

fun formatText :: "jsval \<Rightarrow> js_error + string" where
  "formatText (JStr s) = Inr (markup s)"
| "formatText v = Inl TypeError"

text \<open>
  \<^verbatim>\<open>code.replace(/```python\n?|\n?```/g, '')\<close>: at each position the first
  alternative is tried before the second, and \<^verbatim>\<open>\n?\<close> is greedy.
\<close>

function strip_fences :: "string \<Rightarrow> string" where
  "strip_fences [] = []"
| "strip_fences (c # cs) =
     (if starts_with (''```python'' @ [CHR 0x0A]) (c # cs) then strip_fences (drop 10 (c # cs))
      else if starts_with ''```python'' (c # cs) then strip_fences (drop 9 (c # cs))
      else if starts_with (CHR 0x0A # ''```'') (c # cs) then strip_fences (drop 4 (c # cs))
      else if starts_with ''```'' (c # cs) then strip_fences (drop 3 (c # cs))
      else c # strip_fences cs)"
  by pat_completeness auto
termination
  by (relation "measure length") auto

fun cleanCode :: "jsval \<Rightarrow> js_error + string" where
  "cleanCode (JStr s) = Inr (strip_fences s)"
| "cleanCode v = Inl TypeError"

subsection \<open>The document and the client's fields\<close>

text \<open>
  A section container as the \<^verbatim>\<open>initialize...\<close> methods build it, with what the later
  methods add to it:
  \<^item> \<^verbatim>\<open>streaming-code-container\<close>: the \<^verbatim>\<open>textContent\<close> of its \<^verbatim>\<open>code\<close> element and
    the number of copy buttons appended to it;
  \<^item> \<^verbatim>\<open>streaming-data-container\<close>: the rows of \<^verbatim>\<open>thead\<close>, the rows of \<^verbatim>\<open>tbody\<close>
    (a cell is the value assigned to \<^verbatim>\<open>td.textContent\<close>, which the DOM turns into a
    string), and the children appended after the table, in order;
  \<^item> \<^verbatim>\<open>streaming-result-container\<close>: the \<^verbatim>\<open>innerHTML\<close> of each \<^verbatim>\<open>result-text\<close> block
    and whether the class \<^verbatim>\<open>completed\<close> is set;
  \<^item> \<^verbatim>\<open>streaming-error-container\<close> and \<^verbatim>\<open>streaming-text-container\<close>: the
    \<^verbatim>\<open>innerHTML\<close> of each block.
  Scrolling and \<^verbatim>\<open>Prism.highlightElement\<close> (which leaves \<^verbatim>\<open>textContent\<close> as it is)
  are layout and are left out.
\<close>

datatype data_child = DataText string | ExportButton

datatype container =
    CodeContainer string nat
  | DataContainer "string list list" "jsval list list" "data_child list"
  | ResultContainer "string list" bool
  | ErrorContainer "string list"
  | TextContainer "string list"

text \<open>
  The children of \<^verbatim>\<open>#messages\<close>: a bubble of \<^verbatim>\<open>addMessage(text, type)\<close>, or the
  content element of \<^verbatim>\<open>createStreamingMessage()\<close> with the containers appended to
  it (as indices into the store).
\<close>

datatype chat_message = Bubble string string | StreamingMessage "nat list"

text \<open>
  \<^verbatim>\<open>this.activeComponents.data\<close>: the container (its \<^verbatim>\<open>header\<close> and \<^verbatim>\<open>body\<close> are
  the two parts of that node) and the flag.
\<close>

record data_component =
  dc_container :: nat
  headerInitialized :: bool

datatype promise_state = Pending | Resolved | Rejected js_error

text \<open>
  The fields of the client. \<open>ac_code\<close> ... \<open>ac_text\<close> are the five properties of
  \<^verbatim>\<open>this.activeComponents\<close> (\<open>None\<close> when the property is absent or deleted).
  \<open>eventSource\<close> and \<open>promise\<close> belong to the SSE client only: the handle is open
  or \<^verbatim>\<open>null\<close>, and the promise is the one of the running \<^verbatim>\<open>streamQueryResults\<close>.
  \<open>console_errors\<close> records the calls of \<^verbatim>\<open>console.error\<close> in the message handlers.
\<close>

record state =
  containers :: "container list"
  messages :: "chat_message list"
  currentStreamingMessage :: "nat option"
  ac_code :: "nat option"
  ac_data :: "data_component option"
  ac_result :: "nat option"
  ac_error :: "nat option"
  ac_text :: "nat option"
  loading :: bool
  eventSource :: bool
  promise :: promise_state
  console_errors :: "js_error list"

text \<open>The state the constructors leave.\<close>

definition initial_state :: state where
  "initial_state =
     \<lparr>containers = [], messages = [], currentStreamingMessage = None,
      ac_code = None, ac_data = None, ac_result = None, ac_error = None, ac_text = None,
      loading = False, eventSource = False, promise = Pending, console_errors = []\<rparr>"

type_synonym outcome = "js_error option \<times> state"

text \<open>
  Sequencing: the second statement runs on the state the first one leaves, unless
  the first one raised. \<open>or_catch\<close> is \<^verbatim>\<open>try { ... } catch (e) { ... }\<close> for a handler
  that does not look at the exception.
\<close>

definition and_then :: "outcome \<Rightarrow> (state \<Rightarrow> outcome) \<Rightarrow> outcome" where
  "and_then r f = (case r of (None, s) \<Rightarrow> f s | (Some e, s) \<Rightarrow> (Some e, s))"

definition or_catch :: "outcome \<Rightarrow> (state \<Rightarrow> outcome) \<Rightarrow> outcome" where
  "or_catch r h = (case r of (None, s) \<Rightarrow> (None, s) | (Some e, s) \<Rightarrow> h s)"

text \<open>Mutating the node a reference points to.\<close>

definition update_node :: "nat \<Rightarrow> (container \<Rightarrow> container) \<Rightarrow> state \<Rightarrow> state" where
  "update_node i f s =
     (if i < length (containers s)
      then s\<lparr>containers := (containers s)[i := f (containers s ! i)]\<rparr>
      else s)"

fun add_child :: "nat \<Rightarrow> chat_message \<Rightarrow> chat_message" where
  "add_child i (StreamingMessage cs) = StreamingMessage (cs @ [i])"
| "add_child i m = m"

text \<open>
  \<^verbatim>\<open>this.currentStreamingMessage.appendChild(c)\<close> for a container just created: a
  \<^verbatim>\<open>TypeError\<close> when the field is \<^verbatim>\<open>null\<close>, else the new node's index and the
  state with the node attached.
\<close>

definition appendChild_current :: "container \<Rightarrow> state \<Rightarrow> js_error + nat \<times> state" where
  "appendChild_current c s =
     (case currentStreamingMessage s of
        None \<Rightarrow> Inl TypeError
      | Some m \<Rightarrow>
          Inr (length (containers s),
               s\<lparr>containers := containers s @ [c],
                 messages := (if m < length (messages s)
                              then (messages s)[m := add_child (length (containers s)) (messages s ! m)]
                              else messages s)\<rparr>))"

definition addMessage :: "string \<Rightarrow> string \<Rightarrow> state \<Rightarrow> state" where
  "addMessage t ty s = s\<lparr>messages := messages s @ [Bubble t ty]\<rparr>"

definition showLoading :: "state \<Rightarrow> state" where
  "showLoading s = s\<lparr>loading := True\<rparr>"

definition hideLoading :: "state \<Rightarrow> state" where
  "hideLoading s = s\<lparr>loading := False\<rparr>"

text \<open>\<^verbatim>\<open>createStreamingMessage()\<close> returns the new content element.\<close>

definition createStreamingMessage :: "state \<Rightarrow> nat \<times> state" where
  "createStreamingMessage s =
     (length (messages s), s\<lparr>messages := messages s @ [StreamingMessage []]\<rparr>)"

subsection \<open>Code block lifecycle\<close>

definition initializeCodeBlock :: "state \<Rightarrow> outcome" where
  "initializeCodeBlock s =
     (case appendChild_current (CodeContainer [] 0) s of
        Inl e \<Rightarrow> (Some e, s)
      | Inr (i, s') \<Rightarrow> (None, s'\<lparr>ac_code := Some i\<rparr>))"

fun append_code :: "string \<Rightarrow> container \<Rightarrow> container" where
  "append_code t (CodeContainer txt n) = CodeContainer (txt @ t) n"
| "append_code t c = c"

definition appendToCodeBlock :: "jsval \<Rightarrow> state \<Rightarrow> outcome" where
  "appendToCodeBlock code s =
     and_then (if ac_code s = None then initializeCodeBlock s else (None, s))
       (\<lambda>s1. case cleanCode code of
                Inl e \<Rightarrow> (Some e, s1)
              | Inr clean \<Rightarrow>
                  (case ac_code s1 of
                     None \<Rightarrow> (Some TypeError, s1)
                   | Some i \<Rightarrow> (None, update_node i (append_code clean) s1)))"

fun add_copy_button :: "container \<Rightarrow> container" where
  "add_copy_button (CodeContainer txt n) = CodeContainer txt (Suc n)"
| "add_copy_button c = c"

definition finalizeCodeBlock :: "state \<Rightarrow> outcome" where
  "finalizeCodeBlock s =
     (case ac_code s of
        None \<Rightarrow> (None, s)
      | Some i \<Rightarrow> (None, (update_node i add_copy_button s)\<lparr>ac_code := None\<rparr>))"

subsection \<open>Data table lifecycle\<close>

definition initializeDataTable :: "state \<Rightarrow> outcome" where
  "initializeDataTable s =
     (case appendChild_current (DataContainer [] [] []) s of
        Inl e \<Rightarrow> (Some e, s)
      | Inr (i, s') \<Rightarrow>
          (None, s'\<lparr>ac_data := Some \<lparr>dc_container = i, headerInitialized = False\<rparr>\<rparr>))"

fun add_header_row :: "string list \<Rightarrow> container \<Rightarrow> container" where
  "add_header_row r (DataContainer h b t) = DataContainer (h @ [r]) b t"
| "add_header_row r c = c"

fun add_body_row :: "jsval list \<Rightarrow> container \<Rightarrow> container" where
  "add_body_row r (DataContainer h b t) = DataContainer h (b @ [r]) t"
| "add_body_row r c = c"

fun add_data_child :: "data_child \<Rightarrow> container \<Rightarrow> container" where
  "add_data_child x (DataContainer h b t) = DataContainer h b (t @ [x])"
| "add_data_child x c = c"

text \<open>The rows of \<^verbatim>\<open>thead\<close> of a node (none for a node that is not a data table).\<close>

fun header_rows :: "container \<Rightarrow> string list list" where
  "header_rows (DataContainer h b t) = h"
| "header_rows c = []"

text \<open>
  The header block of \<^verbatim>\<open>renderDataTable\<close> (the same in both branches): a row of
  \<^verbatim>\<open>th\<close> cells from \<^verbatim>\<open>Object.keys\<close>, appended to \<^verbatim>\<open>header\<close>, and the flag set on
  \<^verbatim>\<open>this.activeComponents.data\<close>. \<open>dc\<close> is the component destructured at the start
  of \<^verbatim>\<open>renderDataTable\<close>.
\<close>

definition init_header :: "data_component \<Rightarrow> jsval \<Rightarrow> state \<Rightarrow> outcome" where
  "init_header dc obj s =
     (case Object_keys obj of
        Inl e \<Rightarrow> (Some e, s)
      | Inr headers \<Rightarrow>
          (None, (update_node (dc_container dc) (add_header_row headers) s)
                   \<lparr>ac_data := map_option (\<lambda>d. d\<lparr>headerInitialized := True\<rparr>) (ac_data s)\<rparr>))"

text \<open>The cells of one row of the \<^verbatim>\<open>forEach\<close>: each \<^verbatim>\<open>td.textContent = cell || ''\<close>.\<close>

fun row_cells :: "jsval \<Rightarrow> js_error + jsval list" where
  "row_cells (JArr cells) = Inr (map (\<lambda>cell. js_or cell (JStr [])) cells)"
| "row_cells row =
     (if typeof_object row then
        (case Object_values row of
           Inl e \<Rightarrow> Inl e
         | Inr cells \<Rightarrow> Inr (map (\<lambda>cell. js_or cell (JStr [])) cells))
      else Inr [])"

text \<open>\<^verbatim>\<open>data.forEach(row => ...)\<close>: an exception ends the loop, the rows before it stay.\<close>

fun add_rows :: "data_component \<Rightarrow> jsval list \<Rightarrow> state \<Rightarrow> outcome" where
  "add_rows dc [] s = (None, s)"
| "add_rows dc (row # rows) s =
     (case row_cells row of
        Inl e \<Rightarrow> (Some e, s)
      | Inr cells \<Rightarrow> add_rows dc rows (update_node (dc_container dc) (add_body_row cells) s))"

text \<open>The branch \<^verbatim>\<open>else if (typeof data === 'object')\<close>: one object, one row.\<close>

definition add_object_row :: "data_component \<Rightarrow> jsval \<Rightarrow> state \<Rightarrow> outcome" where
  "add_object_row dc data s =
     (case Object_values data of
        Inl e \<Rightarrow> (Some e, s)
      | Inr cells \<Rightarrow>
          (None, update_node (dc_container dc)
                   (add_body_row (map (\<lambda>cell. js_or cell (JStr [])) cells)) s))"

definition renderDataTable :: "jsval \<Rightarrow> state \<Rightarrow> outcome" where
  "renderDataTable data s =
     (case ac_data s of
        None \<Rightarrow> (Some TypeError, s)
      | Some dc \<Rightarrow>
          (case data of
             JArr rows \<Rightarrow>
               (if length rows > 0 then
                  and_then
                    (if \<not> headerInitialized dc \<and> typeof_object (hd rows)
                     then init_header dc (hd rows) s else (None, s))
                    (add_rows dc rows)
                else (None, s))
           | _ \<Rightarrow>
               (if typeof_object data then
                  and_then
                    (if \<not> headerInitialized dc then init_header dc data s else (None, s))
                    (add_object_row dc data)
                else (None, s))))"

definition renderDataTableAsText :: "jsval \<Rightarrow> state \<Rightarrow> outcome" where
  "renderDataTableAsText txt s =
     (case formatText txt of
        Inl e \<Rightarrow> (Some e, s)
      | Inr html \<Rightarrow>
          (case ac_data s of
             None \<Rightarrow> (Some TypeError, s)
           | Some dc \<Rightarrow> (None, update_node (dc_container dc) (add_data_child (DataText html)) s)))"

text \<open>
  \<^verbatim>\<open>appendToDataTable(data)\<close>. \<open>parse\<close> is \<^verbatim>\<open>JSON.parse\<close> of the runtime, applied to
  the argument as it comes: \<open>None\<close> when it throws its \<^verbatim>\<open>SyntaxError\<close>. The
  \<^verbatim>\<open>catch\<close> takes every exception of the \<^verbatim>\<open>try\<close> block, those of \<^verbatim>\<open>renderDataTable\<close>
  as well.
\<close>

definition appendToDataTable :: "(jsval \<Rightarrow> jsval option) \<Rightarrow> jsval \<Rightarrow> state \<Rightarrow> outcome" where
  "appendToDataTable parse data s =
     and_then (if ac_data s = None then initializeDataTable s else (None, s))
       (\<lambda>s1. or_catch
                (case parse data of
                   None \<Rightarrow> (Some SyntaxError, s1)
                 | Some parsedData \<Rightarrow> renderDataTable parsedData s1)
                (renderDataTableAsText data))"

definition finalizeDataTable :: "state \<Rightarrow> outcome" where
  "finalizeDataTable s =
     (case ac_data s of
        None \<Rightarrow> (None, s)
      | Some dc \<Rightarrow>
          (None, (update_node (dc_container dc) (add_data_child ExportButton) s)\<lparr>ac_data := None\<rparr>))"

subsection \<open>Result, error and text sections\<close>

fun add_block :: "string \<Rightarrow> container \<Rightarrow> container" where
  "add_block html (ResultContainer bs done) = ResultContainer (bs @ [html]) done"
| "add_block html (ErrorContainer bs) = ErrorContainer (bs @ [html])"
| "add_block html (TextContainer bs) = TextContainer (bs @ [html])"
| "add_block html c = c"

fun mark_completed :: "container \<Rightarrow> container" where
  "mark_completed (ResultContainer bs done) = ResultContainer bs True"
| "mark_completed c = c"

definition initializeResultSection :: "state \<Rightarrow> outcome" where
  "initializeResultSection s =
     (case appendChild_current (ResultContainer [] False) s of
        Inl e \<Rightarrow> (Some e, s)
      | Inr (i, s') \<Rightarrow> (None, s'\<lparr>ac_result := Some i\<rparr>))"

definition appendToResultSection :: "jsval \<Rightarrow> state \<Rightarrow> outcome" where
  "appendToResultSection result s =
     and_then (if ac_result s = None then initializeResultSection s else (None, s))
       (\<lambda>s1. case formatText result of
                Inl e \<Rightarrow> (Some e, s1)
              | Inr html \<Rightarrow>
                  (case ac_result s1 of
                     None \<Rightarrow> (Some TypeError, s1)
                   | Some i \<Rightarrow> (None, update_node i (add_block html) s1)))"

definition finalizeResultSection :: "state \<Rightarrow> outcome" where
  "finalizeResultSection s =
     (case ac_result s of
        None \<Rightarrow> (None, s)
      | Some i \<Rightarrow> (None, (update_node i mark_completed s)\<lparr>ac_result := None\<rparr>))"

definition initializeErrorSection :: "state \<Rightarrow> outcome" where
  "initializeErrorSection s =
     (case appendChild_current (ErrorContainer []) s of
        Inl e \<Rightarrow> (Some e, s)
      | Inr (i, s') \<Rightarrow> (None, s'\<lparr>ac_error := Some i\<rparr>))"

definition appendToErrorSection :: "jsval \<Rightarrow> state \<Rightarrow> outcome" where
  "appendToErrorSection err s =
     and_then (if ac_error s = None then initializeErrorSection s else (None, s))
       (\<lambda>s1. case formatText err of
                Inl e \<Rightarrow> (Some e, s1)
              | Inr html \<Rightarrow>
                  (case ac_error s1 of
                     None \<Rightarrow> (Some TypeError, s1)
                   | Some i \<Rightarrow> (None, update_node i (add_block html) s1)))"

definition finalizeErrorSection :: "state \<Rightarrow> outcome" where
  "finalizeErrorSection s =
     (case ac_error s of
        None \<Rightarrow> (None, s)
      | Some i \<Rightarrow> (None, s\<lparr>ac_error := None\<rparr>))"

definition initializeTextSection :: "state \<Rightarrow> outcome" where
  "initializeTextSection s =
     (case appendChild_current (TextContainer []) s of
        Inl e \<Rightarrow> (Some e, s)
      | Inr (i, s') \<Rightarrow> (None, s'\<lparr>ac_text := Some i\<rparr>))"

definition appendToTextSection :: "jsval \<Rightarrow> state \<Rightarrow> outcome" where
  "appendToTextSection txt s =
     and_then (if ac_text s = None then initializeTextSection s else (None, s))
       (\<lambda>s1. case formatText txt of
                Inl e \<Rightarrow> (Some e, s1)
              | Inr html \<Rightarrow>
                  (case ac_text s1 of
                     None \<Rightarrow> (Some TypeError, s1)
                   | Some i \<Rightarrow> (None, update_node i (add_block html) s1)))"

definition finalizeTextSection :: "state \<Rightarrow> outcome" where
  "finalizeTextSection s =
     (case ac_text s of
        None \<Rightarrow> (None, s)
      | Some i \<Rightarrow> (None, s\<lparr>ac_text := None\<rparr>))"

subsection \<open>Content type handlers\<close>

text \<open>
  Each handler is a \<^verbatim>\<open>switch (status)\<close> with the cases \<^verbatim>\<open>'start'\<close>,
  \<^verbatim>\<open>'in_progress'\<close>, \<^verbatim>\<open>'end'\<close> and a \<^verbatim>\<open>default\<close>; the comparison is \<^verbatim>\<open>===\<close>.
\<close>

definition handleCodeContent :: "jsval \<Rightarrow> jsval \<Rightarrow> state \<Rightarrow> outcome" where
  "handleCodeContent answer status s =
     (if status = JStr ''start'' then initializeCodeBlock s
      else if status = JStr ''in_progress'' then appendToCodeBlock answer s
      else if status = JStr ''end'' then finalizeCodeBlock s
      else appendToCodeBlock answer s)"

definition handleDataContent ::
  "(jsval \<Rightarrow> jsval option) \<Rightarrow> jsval \<Rightarrow> jsval \<Rightarrow> state \<Rightarrow> outcome" where
  "handleDataContent parse answer status s =
     (if status = JStr ''start'' then initializeDataTable s
      else if status = JStr ''in_progress'' then appendToDataTable parse answer s
      else if status = JStr ''end'' then finalizeDataTable s
      else appendToDataTable parse answer s)"

definition handleResultContent :: "jsval \<Rightarrow> jsval \<Rightarrow> state \<Rightarrow> outcome" where
  "handleResultContent answer status s =
     (if status = JStr ''start'' then initializeResultSection s
      else if status = JStr ''in_progress'' then appendToResultSection answer s
      else if status = JStr ''end'' then finalizeResultSection s
      else appendToResultSection answer s)"

definition handleErrorContent :: "jsval \<Rightarrow> jsval \<Rightarrow> state \<Rightarrow> outcome" where
  "handleErrorContent answer status s =
     (if status = JStr ''start'' then initializeErrorSection s
      else if status = JStr ''in_progress'' then appendToErrorSection answer s
      else if status = JStr ''end'' then finalizeErrorSection s
      else appendToErrorSection answer s)"

definition handleTextContent :: "jsval \<Rightarrow> jsval \<Rightarrow> state \<Rightarrow> outcome" where
  "handleTextContent answer status s =
     (if status = JStr ''start'' then initializeTextSection s
      else if status = JStr ''in_progress'' then appendToTextSection answer s
      else if status = JStr ''end'' then finalizeTextSection s
      else appendToTextSection answer s)"

text \<open>
  The \<^verbatim>\<open>switch (content_type)\<close> of \<^verbatim>\<open>handleStreamingMessage\<close> and of
  \<^verbatim>\<open>handleWebSocketMessage\<close> (the same text in both).
\<close>

definition switch_content_type ::
  "(jsval \<Rightarrow> jsval option) \<Rightarrow> jsval \<Rightarrow> jsval \<Rightarrow> jsval \<Rightarrow> state \<Rightarrow> outcome" where
  "switch_content_type parse content_type answer content_status s =
     (if content_type = JStr ''code'' then handleCodeContent answer content_status s
      else if content_type = JStr ''data'' then handleDataContent parse answer content_status s
      else if content_type = JStr ''result'' then handleResultContent answer content_status s
      else if content_type = JStr ''error'' then handleErrorContent answer content_status s
      else handleTextContent answer content_status s)"

subsection \<open>Messages, envelopes and the end of a session\<close>

text \<open>
  \<^verbatim>\<open>finishStreaming()\<close>. The content element never carries the class
  \<^verbatim>\<open>streaming-message\<close> (it is set on the parent), so \<^verbatim>\<open>classList.remove\<close> changes
  nothing, but reading \<^verbatim>\<open>classList\<close> of \<^verbatim>\<open>null\<close> is a \<^verbatim>\<open>TypeError\<close>. The SSE client
  then closes its event source; the WebSocket client stops after clearing the field.
\<close>

definition finishStreaming_sse :: "state \<Rightarrow> outcome" where
  "finishStreaming_sse s =
     (let s1 = hideLoading s in
      case currentStreamingMessage s1 of
        None \<Rightarrow> (Some TypeError, s1)
      | Some m \<Rightarrow>
          (let s2 = s1\<lparr>currentStreamingMessage := None\<rparr> in
           (None, if eventSource s2 then s2\<lparr>eventSource := False\<rparr> else s2)))"

definition finishStreaming_ws :: "state \<Rightarrow> outcome" where
  "finishStreaming_ws s =
     (let s1 = hideLoading s in
      case currentStreamingMessage s1 of
        None \<Rightarrow> (Some TypeError, s1)
      | Some m \<Rightarrow> (None, s1\<lparr>currentStreamingMessage := None\<rparr>))"

text \<open>
  \<^verbatim>\<open>const { answer, finished, content_type, content_status } = data\<close>: a
  \<^verbatim>\<open>TypeError\<close> when \<open>data\<close> is \<^verbatim>\<open>null\<close> or \<^verbatim>\<open>undefined\<close>.
\<close>

definition destructure :: "jsval \<Rightarrow> js_error + jsval \<times> jsval \<times> jsval \<times> jsval" where
  "destructure data =
     (case get_prop data ''answer'' of
        Inl e \<Rightarrow> Inl e
      | Inr answer \<Rightarrow>
          (case get_prop data ''finished'' of
             Inl e \<Rightarrow> Inl e
           | Inr finished \<Rightarrow>
               (case get_prop data ''content_type'' of
                  Inl e \<Rightarrow> Inl e
                | Inr content_type \<Rightarrow>
                    (case get_prop data ''content_status'' of
                       Inl e \<Rightarrow> Inl e
                     | Inr content_status \<Rightarrow>
                         Inr (answer, finished, content_type, content_status)))))"

definition handleStreamingMessage :: "(jsval \<Rightarrow> jsval option) \<Rightarrow> jsval \<Rightarrow> state \<Rightarrow> outcome" where
  "handleStreamingMessage parse data s =
     (if currentStreamingMessage s = None then (None, s)
      else
        (case destructure data of
           Inl e \<Rightarrow> (Some e, s)
         | Inr (answer, finished, content_type, content_status) \<Rightarrow>
             and_then (switch_content_type parse content_type answer content_status s)
               (\<lambda>s1. if finished = JNum 1 then finishStreaming_sse s1 else (None, s1))))"

definition handleWebSocketMessage :: "(jsval \<Rightarrow> jsval option) \<Rightarrow> jsval \<Rightarrow> state \<Rightarrow> outcome" where
  "handleWebSocketMessage parse data s =
     (let s0 = (if currentStreamingMessage s = None
                then (case createStreamingMessage s of
                        (m, s') \<Rightarrow> s'\<lparr>currentStreamingMessage := Some m\<rparr>)
                else s) in
      case destructure data of
        Inl e \<Rightarrow> (Some e, s0)
      | Inr (answer, finished, content_type, content_status) \<Rightarrow>
          and_then (switch_content_type parse content_type answer content_status s0)
            (\<lambda>s1. if finished = JNum 1 then finishStreaming_ws s1 else (None, s1)))"

text \<open>
  The two \<^verbatim>\<open>onmessage\<close> callbacks, on the text of a frame. Both parse the frame,
  test \<^verbatim>\<open>data.code === 0\<close> and have no \<^verbatim>\<open>else\<close>. The SSE client resolves its
  promise on \<^verbatim>\<open>finished === 1\<close> and rejects it in the \<^verbatim>\<open>catch\<close>; the WebSocket
  client only logs. A settled promise stays as it is.
\<close>

definition resolve :: "state \<Rightarrow> state" where
  "resolve s = (if promise s = Pending then s\<lparr>promise := Resolved\<rparr> else s)"

definition reject :: "js_error \<Rightarrow> state \<Rightarrow> state" where
  "reject e s = (if promise s = Pending then s\<lparr>promise := Rejected e\<rparr> else s)"

definition console_error :: "js_error \<Rightarrow> state \<Rightarrow> state" where
  "console_error e s = s\<lparr>console_errors := console_errors s @ [e]\<rparr>"

definition onmessage_sse :: "(jsval \<Rightarrow> jsval option) \<Rightarrow> string \<Rightarrow> state \<Rightarrow> state" where
  "onmessage_sse parse frame s =
     (case parse (JStr frame) of
        None \<Rightarrow> reject SyntaxError (console_error SyntaxError s)
      | Some data \<Rightarrow>
          (case get_prop data ''code'' of
             Inl e \<Rightarrow> reject e (console_error e s)
           | Inr code \<Rightarrow>
               (if code = JNum 0 then
                  (case get_prop data ''data'' of
                     Inl e \<Rightarrow> reject e (console_error e s)
                   | Inr d \<Rightarrow>
                       (case handleStreamingMessage parse d s of
                          (Some e, s1) \<Rightarrow> reject e (console_error e s1)
                        | (None, s1) \<Rightarrow>
                            (case get_prop d ''finished'' of
                               Inl e \<Rightarrow> reject e (console_error e s1)
                             | Inr finished \<Rightarrow>
                                 (if finished = JNum 1 then resolve s1 else s1))))
                else s)))"

definition onmessage_ws :: "(jsval \<Rightarrow> jsval option) \<Rightarrow> string \<Rightarrow> state \<Rightarrow> state" where
  "onmessage_ws parse frame s =
     (case parse (JStr frame) of
        None \<Rightarrow> console_error SyntaxError s
      | Some data \<Rightarrow>
          (case get_prop data ''code'' of
             Inl e \<Rightarrow> console_error e s
           | Inr code \<Rightarrow>
               (if code = JNum 0 then
                  (case get_prop data ''data'' of
                     Inl e \<Rightarrow> console_error e s
                   | Inr d \<Rightarrow>
                       (case handleWebSocketMessage parse d s of
                          (Some e, s1) \<Rightarrow> console_error e s1
                        | (None, s1) \<Rightarrow> s1))
                else s)))"

text \<open>
  The start of a question in the SSE client (\<^verbatim>\<open>sendQuestion\<close> up to the opening of
  the event source in \<^verbatim>\<open>streamQueryResults\<close>): the user's bubble, the loading
  indicator, a new streaming message, a new event source and a new promise.
\<close>

definition streamQueryResults :: "state \<Rightarrow> state" where
  "streamQueryResults s =
     (case createStreamingMessage s of
        (m, s') \<Rightarrow> s'\<lparr>currentStreamingMessage := Some m, eventSource := True, promise := Pending\<rparr>)"

definition sendQuestion_sse :: "string \<Rightarrow> state \<Rightarrow> state" where
  "sendQuestion_sse question s =
     (if question = [] then s
      else streamQueryResults (showLoading (addMessage question ''user'' s)))"

subsection \<open>The slots of the specification\<close>

text \<open>
  The specification speaks of five slots and of a normalization of the content
  type: \<^emph>\<open>one of code, data, result, error, text; text is also the implicit default
  when the field is absent or unrecognized\<close>. \<open>normalize_content_type\<close> follows these
  words; \<open>slot_handler\<close> names the handler the source wrote for each slot. The
  source has no such function: it has the \<^verbatim>\<open>switch\<close> above.
\<close>

datatype slot = Code | Data | Result | Error | Text

definition slot_named :: "string \<Rightarrow> slot option" where
  "slot_named name =
     (if name = ''code'' then Some Code
      else if name = ''data'' then Some Data
      else if name = ''result'' then Some Result
      else if name = ''error'' then Some Error
      else if name = ''text'' then Some Text
      else None)"

fun normalize_content_type :: "jsval \<Rightarrow> slot" where
  "normalize_content_type (JStr name) = (case slot_named name of Some sl \<Rightarrow> sl | None \<Rightarrow> Text)"
| "normalize_content_type v = Text"

fun slot_handler ::
  "(jsval \<Rightarrow> jsval option) \<Rightarrow> slot \<Rightarrow> jsval \<Rightarrow> jsval \<Rightarrow> state \<Rightarrow> outcome" where
  "slot_handler parse Code = handleCodeContent"
| "slot_handler parse Data = handleDataContent parse"
| "slot_handler parse Result = handleResultContent"
| "slot_handler parse Error = handleErrorContent"
| "slot_handler parse Text = handleTextContent"

text \<open>The node the data slot refers to, if the slot is open.\<close>

definition data_node :: "state \<Rightarrow> nat option" where
  "data_node s = map_option dc_container (ac_data s)"

text \<open>
  A run of fragments delivered to the data slot one after the other (each by a
  message with the status \<^verbatim>\<open>in_progress\<close>); an exception of one fragment is caught
  by the \<^verbatim>\<open>onmessage\<close> callback and the next fragment finds the state as it was left.
\<close>

fun append_fragments :: "(jsval \<Rightarrow> jsval option) \<Rightarrow> jsval list \<Rightarrow> state \<Rightarrow> state" where
  "append_fragments parse [] s = s"
| "append_fragments parse (f # fs) s =
     append_fragments parse fs (snd (appendToDataTable parse f s))"

subsection \<open>Well-formed states\<close>

text \<open>
  In the browser a slot holds a reference to the node its \<^verbatim>\<open>initialize...\<close> method
  made; in the model it holds an index. A state is well formed when every open
  slot refers to a node of the store that has the slot's kind and carries no
  finalize mark yet (no copy button, no export button, no \<^verbatim>\<open>completed\<close> class), and
  no node carries more than one mark. Being well formed depends on the containers
  and on the five slots only, which nothing but the \<^verbatim>\<open>initialize...\<close>,
  \<^verbatim>\<open>appendTo...\<close>, \<^verbatim>\<open>render...\<close> and \<^verbatim>\<open>finalize...\<close> methods writes.
\<close>

fun is_open_code :: "container \<Rightarrow> bool" where
  "is_open_code (CodeContainer txt n) = (n = 0)"
| "is_open_code c = False"

fun is_open_data :: "container \<Rightarrow> bool" where
  "is_open_data (DataContainer h b t) = (ExportButton \<notin> set t)"
| "is_open_data c = False"

fun is_open_result :: "container \<Rightarrow> bool" where
  "is_open_result (ResultContainer bs done) = (\<not> done)"
| "is_open_result c = False"

fun is_error_container :: "container \<Rightarrow> bool" where
  "is_error_container (ErrorContainer bs) = True"
| "is_error_container c = False"

fun is_text_container :: "container \<Rightarrow> bool" where
  "is_text_container (TextContainer bs) = True"
| "is_text_container c = False"

fun finalize_marks :: "container \<Rightarrow> nat" where
  "finalize_marks (CodeContainer txt n) = n"
| "finalize_marks (DataContainer h b t) = length (filter (\<lambda>x. x = ExportButton) t)"
| "finalize_marks (ResultContainer bs done) = (if done then 1 else 0)"
| "finalize_marks c = 0"

definition at_most_once :: "container \<Rightarrow> bool" where
  "at_most_once c = (finalize_marks c \<le> 1)"

definition slot_ok :: "nat option \<Rightarrow> (container \<Rightarrow> bool) \<Rightarrow> container list \<Rightarrow> bool" where
  "slot_ok h P cs = (case h of None \<Rightarrow> True | Some i \<Rightarrow> i < length cs \<and> P (cs ! i))"

definition well_formed :: "state \<Rightarrow> bool" where
  "well_formed s =
     (slot_ok (ac_code s) is_open_code (containers s)
      \<and> slot_ok (data_node s) is_open_data (containers s)
      \<and> slot_ok (ac_result s) is_open_result (containers s)
      \<and> slot_ok (ac_error s) is_error_container (containers s)
      \<and> slot_ok (ac_text s) is_text_container (containers s)
      \<and> list_all at_most_once (containers s))"

text \<open>An update that keeps the kind, the openness and the marks of every node.\<close>

definition keeps :: "(container \<Rightarrow> container) \<Rightarrow> bool" where
  "keeps f = (\<forall>c. is_open_code (f c) = is_open_code c \<and> is_open_data (f c) = is_open_data c
      \<and> is_open_result (f c) = is_open_result c \<and> is_error_container (f c) = is_error_container c
      \<and> is_text_container (f c) = is_text_container c \<and> finalize_marks (f c) = finalize_marks c)"

subsection \<open>Frames and fragments of the examples\<close>

text \<open>
  The examples below run the clients on concrete frames. \<^verbatim>\<open>JSON.parse\<close> is then the
  finite table of the texts that occur, with the value each of them denotes; every
  other argument is a \<^verbatim>\<open>SyntaxError\<close>.
\<close>

definition parse_table :: "(string \<times> jsval) list \<Rightarrow> jsval \<Rightarrow> jsval option" where
  "parse_table tbl v = (case v of JStr s \<Rightarrow> map_of tbl s | _ \<Rightarrow> None)"

definition frame_upstream_failure :: string where
  "frame_upstream_failure =
     ''{\"code\":1,\"data\":{\"answer\":\"boom\",\"finished\":0,\"content_type\":\"text\",\"content_status\":\"in_progress\"}}''"

definition envelope_upstream_failure :: jsval where
  "envelope_upstream_failure =
     JObj [(''code'', JNum 1),
           (''data'', JObj [(''answer'', JStr ''boom''), (''finished'', JNum 0),
                            (''content_type'', JStr ''text''),
                            (''content_status'', JStr ''in_progress'')])]"

text \<open>A session of the SSE client just opened: one question asked, no message yet.\<close>

definition asked :: state where
  "asked = sendQuestion_sse ''q'' initial_state"

text \<open>Messages (the \<^verbatim>\<open>data\<close> of an envelope).\<close>

definition message_result_terminal :: jsval where
  "message_result_terminal =
     JObj [(''answer'', JStr ''done''), (''finished'', JNum 1),
           (''content_type'', JStr ''result''), (''content_status'', JStr ''in_progress'')]"

definition message_code_a_terminal :: jsval where
  "message_code_a_terminal =
     JObj [(''answer'', JStr ''a''), (''finished'', JNum 1),
           (''content_type'', JStr ''code''), (''content_status'', JStr ''in_progress'')]"

definition message_code_b :: jsval where
  "message_code_b =
     JObj [(''answer'', JStr ''b''), (''finished'', JNum 0),
           (''content_type'', JStr ''code''), (''content_status'', JStr ''in_progress'')]"

definition message_data_end :: jsval where
  "message_data_end =
     JObj [(''answer'', JStr ''not json''), (''finished'', JNum 0),
           (''content_type'', JStr ''data''), (''content_status'', JStr ''end'')]"

text \<open>The two fragments of the header example, and the values they denote.\<close>

definition fragment_ab12 :: string where
  "fragment_ab12 = ''[{\"a\":1,\"b\":2}]''"

definition fragment_ab34 :: string where
  "fragment_ab34 = ''[{\"a\":3,\"b\":4}]''"

definition records_ab12 :: jsval where
  "records_ab12 = JArr [JObj [(''a'', JNum 1), (''b'', JNum 2)]]"

definition records_ab34 :: jsval where
  "records_ab34 = JArr [JObj [(''a'', JNum 3), (''b'', JNum 4)]]"

definition parse_ab :: "jsval \<Rightarrow> jsval option" where
  "parse_ab = parse_table [(fragment_ab12, records_ab12), (fragment_ab34, records_ab34)]"

section \<open>Properties\<close>

subsection \<open>Basic facts\<close>

lemma and_then_simps [simp]:
  "and_then (None, s) f = f s"
  "and_then (Some e, s) f = (Some e, s)"
  by (simp_all add: and_then_def)

lemma or_catch_simps [simp]:
  "or_catch (None, s) h = (None, s)"
  "or_catch (Some e, s) h = h s"
  by (simp_all add: or_catch_def)

lemma snd_and_then:
  "snd (and_then r f) = (if fst r = None then snd (f (snd r)) else snd r)"
  by (cases r; cases "fst r") (auto simp: and_then_def)

lemma snd_or_catch:
  "snd (or_catch r h) = (if fst r = None then snd r else snd (h (snd r)))"
  by (cases r; cases "fst r") (auto simp: or_catch_def)

lemma update_node_fields [simp]:
  "messages (update_node i f s) = messages s"
  "currentStreamingMessage (update_node i f s) = currentStreamingMessage s"
  "ac_code (update_node i f s) = ac_code s"
  "ac_data (update_node i f s) = ac_data s"
  "ac_result (update_node i f s) = ac_result s"
  "ac_error (update_node i f s) = ac_error s"
  "ac_text (update_node i f s) = ac_text s"
  "length (containers (update_node i f s)) = length (containers s)"
  "data_node (update_node i f s) = data_node s"
  by (simp_all add: update_node_def data_node_def)

text \<open>No content handler touches \<^verbatim>\<open>this.currentStreamingMessage\<close>.\<close>

lemma appendChild_current_keeps:
  "appendChild_current c s = Inr (i, s') \<Longrightarrow>
     currentStreamingMessage s' = currentStreamingMessage s"
  by (auto simp: appendChild_current_def split: option.splits)

lemma initialize_keeps_current [simp]:
  "currentStreamingMessage (snd (initializeCodeBlock s)) = currentStreamingMessage s"
  "currentStreamingMessage (snd (initializeDataTable s)) = currentStreamingMessage s"
  "currentStreamingMessage (snd (initializeResultSection s)) = currentStreamingMessage s"
  "currentStreamingMessage (snd (initializeErrorSection s)) = currentStreamingMessage s"
  "currentStreamingMessage (snd (initializeTextSection s)) = currentStreamingMessage s"
  by (auto simp: initializeCodeBlock_def initializeDataTable_def initializeResultSection_def
      initializeErrorSection_def initializeTextSection_def
      dest: appendChild_current_keeps split: sum.splits)

lemma finalize_keeps_current [simp]:
  "currentStreamingMessage (snd (finalizeCodeBlock s)) = currentStreamingMessage s"
  "currentStreamingMessage (snd (finalizeDataTable s)) = currentStreamingMessage s"
  "currentStreamingMessage (snd (finalizeResultSection s)) = currentStreamingMessage s"
  "currentStreamingMessage (snd (finalizeErrorSection s)) = currentStreamingMessage s"
  "currentStreamingMessage (snd (finalizeTextSection s)) = currentStreamingMessage s"
  by (auto simp: finalizeCodeBlock_def finalizeDataTable_def finalizeResultSection_def
      finalizeErrorSection_def finalizeTextSection_def split: option.splits)

lemma add_rows_keeps [simp]:
  "currentStreamingMessage (snd (add_rows dc rows s)) = currentStreamingMessage s"
  "messages (snd (add_rows dc rows s)) = messages s"
  "ac_data (snd (add_rows dc rows s)) = ac_data s"
  "data_node (snd (add_rows dc rows s)) = data_node s"
  "length (containers (snd (add_rows dc rows s))) = length (containers s)"
  by (induction rows arbitrary: s) (auto split: sum.splits)

lemma init_header_keeps [simp]:
  "currentStreamingMessage (snd (init_header dc obj s)) = currentStreamingMessage s"
  "messages (snd (init_header dc obj s)) = messages s"
  "data_node (snd (init_header dc obj s)) = data_node s"
  "length (containers (snd (init_header dc obj s))) = length (containers s)"
  by (auto simp: init_header_def data_node_def option.map_comp comp_def split: sum.splits)

lemma add_object_row_keeps [simp]:
  "currentStreamingMessage (snd (add_object_row dc obj s)) = currentStreamingMessage s"
  "messages (snd (add_object_row dc obj s)) = messages s"
  "ac_data (snd (add_object_row dc obj s)) = ac_data s"
  "data_node (snd (add_object_row dc obj s)) = data_node s"
  "length (containers (snd (add_object_row dc obj s))) = length (containers s)"
  by (auto simp: add_object_row_def split: sum.splits)

lemma renderDataTable_keeps [simp]:
  "currentStreamingMessage (snd (renderDataTable d s)) = currentStreamingMessage s"
  "messages (snd (renderDataTable d s)) = messages s"
  "data_node (snd (renderDataTable d s)) = data_node s"
  "length (containers (snd (renderDataTable d s))) = length (containers s)"
  by (simp_all add: renderDataTable_def snd_and_then split: option.splits jsval.splits)

lemma renderDataTableAsText_keeps [simp]:
  "currentStreamingMessage (snd (renderDataTableAsText d s)) = currentStreamingMessage s"
  "messages (snd (renderDataTableAsText d s)) = messages s"
  "ac_data (snd (renderDataTableAsText d s)) = ac_data s"
  "data_node (snd (renderDataTableAsText d s)) = data_node s"
  "length (containers (snd (renderDataTableAsText d s))) = length (containers s)"
  by (simp_all add: renderDataTableAsText_def split: option.splits sum.splits)

lemma append_keeps_current [simp]:
  "currentStreamingMessage (snd (appendToCodeBlock a s)) = currentStreamingMessage s"
  "currentStreamingMessage (snd (appendToDataTable parse a s)) = currentStreamingMessage s"
  "currentStreamingMessage (snd (appendToResultSection a s)) = currentStreamingMessage s"
  "currentStreamingMessage (snd (appendToErrorSection a s)) = currentStreamingMessage s"
  "currentStreamingMessage (snd (appendToTextSection a s)) = currentStreamingMessage s"
  by (simp_all add: appendToCodeBlock_def appendToDataTable_def appendToResultSection_def
      appendToErrorSection_def appendToTextSection_def snd_and_then snd_or_catch
      split: option.splits sum.splits)

lemma switch_keeps_current:
  "currentStreamingMessage (snd (switch_content_type parse ct a st s))
     = currentStreamingMessage s"
  by (simp add: switch_content_type_def handleCodeContent_def handleDataContent_def
      handleResultContent_def handleErrorContent_def handleTextContent_def)






text \<open>Once the flag is set, no fragment changes a header.\<close>

lemma header_rows_add_body_row [simp]: "header_rows (add_body_row r c) = header_rows c"
  by (cases c) simp_all

lemma header_rows_add_data_child [simp]: "header_rows (add_data_child x c) = header_rows c"
  by (cases c) simp_all

lemma headers_update_node:
  "(\<And>c. header_rows (f c) = header_rows c) \<Longrightarrow>
   map header_rows (containers (update_node i f s)) = map header_rows (containers s)"
  by (simp add: update_node_def map_update list_update_same_conv)

lemma headers_add_rows [simp]:
  "map header_rows (containers (snd (add_rows dc rows s))) = map header_rows (containers s)"
  by (induction rows arbitrary: s) (auto simp: headers_update_node split: sum.splits)

lemma headers_add_object_row [simp]:
  "map header_rows (containers (snd (add_object_row dc obj s))) = map header_rows (containers s)"
  by (auto simp: add_object_row_def headers_update_node split: sum.splits)

lemma headers_renderDataTableAsText [simp]:
  "map header_rows (containers (snd (renderDataTableAsText d s)))
     = map header_rows (containers s)"
  by (auto simp: renderDataTableAsText_def headers_update_node split: sum.splits option.splits)

lemma locked_renderDataTable:
  "ac_data s = Some dc \<Longrightarrow> headerInitialized dc \<Longrightarrow>
   map header_rows (containers (snd (renderDataTable d s))) = map header_rows (containers s)
   \<and> ac_data (snd (renderDataTable d s)) = Some dc"
  by (simp add: renderDataTable_def split: jsval.splits)

lemma locked_appendToDataTable:
  "ac_data s = Some dc \<Longrightarrow> headerInitialized dc \<Longrightarrow>
   map header_rows (containers (snd (appendToDataTable parse f s)))
     = map header_rows (containers s)
   \<and> ac_data (snd (appendToDataTable parse f s)) = Some dc"
  by (auto simp: appendToDataTable_def snd_or_catch locked_renderDataTable split: option.splits)

lemma locked_append_fragments:
  "ac_data s = Some dc \<Longrightarrow> headerInitialized dc \<Longrightarrow>
   map header_rows (containers (append_fragments parse fs s)) = map header_rows (containers s)
   \<and> ac_data (append_fragments parse fs s) = Some dc"
proof (induction fs arbitrary: s)
  case Nil
  then show ?case by simp
next
  case (Cons f fs)
  from locked_appendToDataTable [OF Cons.prems, of parse f]
  have 1: "map header_rows (containers (snd (appendToDataTable parse f s)))
             = map header_rows (containers s)"
    and 2: "ac_data (snd (appendToDataTable parse f s)) = Some dc" by simp_all
  from Cons.IH [OF 2 Cons.prems(2)] 1 show ?case by simp
qed

text \<open>The states of the examples, evaluated.\<close>

lemma asked_eq:
  "asked = \<lparr>containers = [], messages = [Bubble ''q'' ''user'', StreamingMessage []],
            currentStreamingMessage = Some 1,
            ac_code = None, ac_data = None, ac_result = None, ac_error = None, ac_text = None,
            loading = True, eventSource = True, promise = Pending, console_errors = []\<rparr>"
  by (simp add: asked_def sendQuestion_sse_def streamQueryResults_def createStreamingMessage_def
      showLoading_def addMessage_def initial_state_def)

lemmas handler_defs =
  handleCodeContent_def handleDataContent_def handleResultContent_def
  handleErrorContent_def handleTextContent_def switch_content_type_def

lemmas section_defs =
  initializeCodeBlock_def appendToCodeBlock_def finalizeCodeBlock_def
  initializeDataTable_def appendToDataTable_def finalizeDataTable_def
  initializeResultSection_def appendToResultSection_def finalizeResultSection_def
  initializeErrorSection_def appendToErrorSection_def finalizeErrorSection_def
  initializeTextSection_def appendToTextSection_def finalizeTextSection_def
  renderDataTable_def renderDataTableAsText_def init_header_def add_object_row_def
  appendChild_current_def update_node_def js_or_def markup_def starts_with_def

lemmas message_defs =
  handleStreamingMessage_def handleWebSocketMessage_def destructure_def
  finishStreaming_sse_def finishStreaming_ws_def hideLoading_def
  createStreamingMessage_def

subsection \<open>The operations keep a state well formed\<close>

lemma slot_ok_None [simp]: "slot_ok None P cs"
  by (simp add: slot_ok_def)

lemma slot_ok_append: "slot_ok h P cs \<Longrightarrow> slot_ok h P (cs @ [c])"
  by (auto simp: slot_ok_def nth_append split: option.splits)

lemma slot_ok_new: "P c \<Longrightarrow> slot_ok (Some (length cs)) P (cs @ [c])"
  by (simp add: slot_ok_def)

lemma slot_ok_update:
  "slot_ok h P cs \<Longrightarrow> (\<And>c. P c \<Longrightarrow> P (f c)) \<Longrightarrow> slot_ok h P (cs[i := f (cs ! i)])"
  by (cases h; cases "i < length cs") (auto simp: slot_ok_def nth_list_update)

lemma marks_append:
  "list_all at_most_once cs \<Longrightarrow> finalize_marks c \<le> 1 \<Longrightarrow>
   list_all at_most_once (cs @ [c])"
  by (simp add: at_most_once_def)

lemma marks_update:
  "list_all at_most_once cs \<Longrightarrow> at_most_once (f (cs ! i)) \<Longrightarrow>
   list_all at_most_once (cs[i := f (cs ! i)])"
  by (cases "i < length cs") (auto simp: list_all_length nth_list_update)

lemma keeps_append_code [simp]: "keeps (append_code t)"
  unfolding keeps_def by (rule allI, case_tac c) simp_all

lemma keeps_add_header_row [simp]: "keeps (add_header_row r)"
  unfolding keeps_def by (rule allI, case_tac c) simp_all

lemma keeps_add_body_row [simp]: "keeps (add_body_row r)"
  unfolding keeps_def by (rule allI, case_tac c) simp_all

lemma keeps_add_data_text [simp]: "keeps (add_data_child (DataText html))"
  unfolding keeps_def by (rule allI, case_tac c) simp_all

lemma keeps_add_block [simp]: "keeps (add_block html)"
  unfolding keeps_def by (rule allI, case_tac c) simp_all

lemma well_formed_update_node:
  assumes "well_formed s" and "keeps f"
  shows "well_formed (update_node i f s)"
proof (cases "i < length (containers s)")
  case False
  then show ?thesis using assms by (simp add: update_node_def)
next
  case True
  have k: "\<And>c. is_open_code c \<Longrightarrow> is_open_code (f c)"
    "\<And>c. is_open_data c \<Longrightarrow> is_open_data (f c)"
    "\<And>c. is_open_result c \<Longrightarrow> is_open_result (f c)"
    "\<And>c. is_error_container c \<Longrightarrow> is_error_container (f c)"
    "\<And>c. is_text_container c \<Longrightarrow> is_text_container (f c)"
    using assms(2) by (simp_all add: keeps_def)
  have m: "at_most_once (f (containers s ! i))"
    using assms True by (simp add: keeps_def well_formed_def list_all_length at_most_once_def)
  show ?thesis
    using assms(1) True
    by (simp add: well_formed_def update_node_def data_node_def slot_ok_update k marks_update m)
qed


lemma well_formed_other_fields [simp]:
  "well_formed (s\<lparr>messages := ms\<rparr>) = well_formed s"
  "well_formed (s\<lparr>currentStreamingMessage := cur\<rparr>) = well_formed s"
  "well_formed (s\<lparr>loading := l\<rparr>) = well_formed s"
  "well_formed (s\<lparr>eventSource := es\<rparr>) = well_formed s"
  "well_formed (s\<lparr>promise := p\<rparr>) = well_formed s"
  "well_formed (s\<lparr>console_errors := ce\<rparr>) = well_formed s"
  by (simp_all add: well_formed_def data_node_def)

lemma well_formed_initial: "well_formed initial_state"
  by (simp add: well_formed_def initial_state_def data_node_def)

lemma appendChild_current_result:
  "appendChild_current c s = Inr (i, s') \<Longrightarrow>
     i = length (containers s) \<and> containers s' = containers s @ [c] \<and>
     ac_code s' = ac_code s \<and> ac_data s' = ac_data s \<and> ac_result s' = ac_result s \<and>
     ac_error s' = ac_error s \<and> ac_text s' = ac_text s"
  by (auto simp: appendChild_current_def split: option.splits)

lemma well_formed_initialize:
  "well_formed s \<Longrightarrow> well_formed (snd (initializeCodeBlock s))"
  "well_formed s \<Longrightarrow> well_formed (snd (initializeDataTable s))"
  "well_formed s \<Longrightarrow> well_formed (snd (initializeResultSection s))"
  "well_formed s \<Longrightarrow> well_formed (snd (initializeErrorSection s))"
  "well_formed s \<Longrightarrow> well_formed (snd (initializeTextSection s))"
  by (auto simp: initializeCodeBlock_def initializeDataTable_def initializeResultSection_def
      initializeErrorSection_def initializeTextSection_def well_formed_def data_node_def
      at_most_once_def slot_ok_append slot_ok_new
      dest!: appendChild_current_result split: sum.splits)

lemma well_formed_appendToCodeBlock:
  "well_formed s \<Longrightarrow> well_formed (snd (appendToCodeBlock a s))"
  by (simp add: appendToCodeBlock_def snd_and_then well_formed_initialize
      well_formed_update_node split: sum.splits option.splits)

lemma well_formed_appendToResultSection:
  "well_formed s \<Longrightarrow> well_formed (snd (appendToResultSection a s))"
  by (simp add: appendToResultSection_def snd_and_then well_formed_initialize
      well_formed_update_node split: sum.splits option.splits)

lemma well_formed_appendToErrorSection:
  "well_formed s \<Longrightarrow> well_formed (snd (appendToErrorSection a s))"
  by (simp add: appendToErrorSection_def snd_and_then well_formed_initialize
      well_formed_update_node split: sum.splits option.splits)

lemma well_formed_appendToTextSection:
  "well_formed s \<Longrightarrow> well_formed (snd (appendToTextSection a s))"
  by (simp add: appendToTextSection_def snd_and_then well_formed_initialize
      well_formed_update_node split: sum.splits option.splits)

lemma well_formed_add_rows:
  "well_formed s \<Longrightarrow> well_formed (snd (add_rows dc rows s))"
  by (induction rows arbitrary: s) (auto simp: well_formed_update_node split: sum.splits)

lemma well_formed_headerInitialized:
  "well_formed (s\<lparr>ac_data := map_option (\<lambda>d. d\<lparr>headerInitialized := True\<rparr>) (ac_data s)\<rparr>)
     = well_formed s"
  by (simp add: well_formed_def data_node_def option.map_comp comp_def)

lemma ac_data_update_node_upd:
  "(update_node i f s)\<lparr>ac_data := x\<rparr> = update_node i f (s\<lparr>ac_data := x\<rparr>)"
  by (simp add: update_node_def)

lemma well_formed_init_header:
  "well_formed s \<Longrightarrow> well_formed (snd (init_header dc obj s))"
proof -
  assume w: "well_formed s"
  have "well_formed ((update_node i f s)
          \<lparr>ac_data := map_option (\<lambda>d. d\<lparr>headerInitialized := True\<rparr>) (ac_data s)\<rparr>)"
    if "keeps f" for i f
  proof -
    have "well_formed (update_node i f s)"
      using w that by (rule well_formed_update_node)
    then show ?thesis
      using well_formed_headerInitialized [of "update_node i f s"] by simp
  qed
  then show ?thesis
    using w by (simp add: init_header_def split: sum.splits)
qed

lemma well_formed_add_object_row:
  "well_formed s \<Longrightarrow> well_formed (snd (add_object_row dc obj s))"
  by (simp add: add_object_row_def well_formed_update_node split: sum.splits)

lemma well_formed_renderDataTable:
  "well_formed s \<Longrightarrow> well_formed (snd (renderDataTable d s))"
  by (simp add: renderDataTable_def snd_and_then well_formed_init_header well_formed_add_rows
      well_formed_add_object_row split: option.splits jsval.splits)

lemma well_formed_renderDataTableAsText:
  "well_formed s \<Longrightarrow> well_formed (snd (renderDataTableAsText d s))"
  by (simp add: renderDataTableAsText_def well_formed_update_node split: option.splits sum.splits)

lemma well_formed_appendToDataTable:
  "well_formed s \<Longrightarrow> well_formed (snd (appendToDataTable parse a s))"
  by (simp add: appendToDataTable_def snd_and_then snd_or_catch well_formed_initialize
      well_formed_renderDataTable well_formed_renderDataTableAsText split: option.splits)


lemma add_copy_button_others:
  "is_open_data c \<Longrightarrow> is_open_data (add_copy_button c)"
  "is_open_result c \<Longrightarrow> is_open_result (add_copy_button c)"
  "is_error_container c \<Longrightarrow> is_error_container (add_copy_button c)"
  "is_text_container c \<Longrightarrow> is_text_container (add_copy_button c)"
  "is_open_code c \<Longrightarrow> at_most_once (add_copy_button c)"
  by (case_tac [!] c) (simp_all add: at_most_once_def )

lemma add_export_button_others:
  "is_open_code c \<Longrightarrow> is_open_code (add_data_child ExportButton c)"
  "is_open_result c \<Longrightarrow> is_open_result (add_data_child ExportButton c)"
  "is_error_container c \<Longrightarrow> is_error_container (add_data_child ExportButton c)"
  "is_text_container c \<Longrightarrow> is_text_container (add_data_child ExportButton c)"
  "is_open_data c \<Longrightarrow> at_most_once (add_data_child ExportButton c)"
  by (case_tac [!] c) (auto simp: at_most_once_def filter_empty_conv)

lemma mark_completed_others:
  "is_open_code c \<Longrightarrow> is_open_code (mark_completed c)"
  "is_open_data c \<Longrightarrow> is_open_data (mark_completed c)"
  "is_error_container c \<Longrightarrow> is_error_container (mark_completed c)"
  "is_text_container c \<Longrightarrow> is_text_container (mark_completed c)"
  "is_open_result c \<Longrightarrow> at_most_once (mark_completed c)"
  by (case_tac [!] c) (simp_all add: at_most_once_def )

lemma slot_ok_update_node:
  "slot_ok h P (containers s) \<Longrightarrow> (\<And>c. P c \<Longrightarrow> P (f c)) \<Longrightarrow>
   slot_ok h P (containers (update_node i f s))"
  by (simp add: update_node_def slot_ok_update)

lemma marks_update_node:
  "list_all at_most_once (containers s) \<Longrightarrow>
   (i < length (containers s) \<Longrightarrow> at_most_once (f (containers s ! i))) \<Longrightarrow>
   list_all at_most_once (containers (update_node i f s))"
  by (simp add: update_node_def marks_update)

lemma well_formed_finalizeCodeBlock:
  assumes "well_formed s"
  shows "well_formed (snd (finalizeCodeBlock s))"
proof (cases "ac_code s")
  case None
  then show ?thesis using assms by (simp add: finalizeCodeBlock_def)
next
  case (Some i)
  have o: "i < length (containers s) \<Longrightarrow> at_most_once (add_copy_button (containers s ! i))"
    using assms Some by (simp add: well_formed_def slot_ok_def add_copy_button_others)
  show ?thesis
    using assms Some o
    by (simp add: finalizeCodeBlock_def well_formed_def data_node_def
        slot_ok_update_node add_copy_button_others marks_update_node)
qed

lemma well_formed_finalizeDataTable:
  assumes "well_formed s"
  shows "well_formed (snd (finalizeDataTable s))"
proof (cases "ac_data s")
  case None
  then show ?thesis using assms by (simp add: finalizeDataTable_def)
next
  case (Some dc)
  have o: "dc_container dc < length (containers s) \<Longrightarrow>
           at_most_once (add_data_child ExportButton (containers s ! dc_container dc))"
    using assms Some
    by (simp add: well_formed_def slot_ok_def data_node_def add_export_button_others)
  show ?thesis
    using assms Some o
    by (simp add: finalizeDataTable_def well_formed_def data_node_def
        slot_ok_update_node add_export_button_others marks_update_node)
qed

lemma well_formed_finalizeResultSection:
  assumes "well_formed s"
  shows "well_formed (snd (finalizeResultSection s))"
proof (cases "ac_result s")
  case None
  then show ?thesis using assms by (simp add: finalizeResultSection_def)
next
  case (Some i)
  have o: "i < length (containers s) \<Longrightarrow> at_most_once (mark_completed (containers s ! i))"
    using assms Some by (simp add: well_formed_def slot_ok_def mark_completed_others)
  show ?thesis
    using assms Some o
    by (simp add: finalizeResultSection_def well_formed_def data_node_def
        slot_ok_update_node mark_completed_others marks_update_node)
qed

lemma well_formed_finalizeErrorSection:
  "well_formed s \<Longrightarrow> well_formed (snd (finalizeErrorSection s))"
  by (simp add: finalizeErrorSection_def well_formed_def data_node_def split: option.splits)

lemma well_formed_finalizeTextSection:
  "well_formed s \<Longrightarrow> well_formed (snd (finalizeTextSection s))"
  by (simp add: finalizeTextSection_def well_formed_def data_node_def split: option.splits)

lemma well_formed_switch:
  "well_formed s \<Longrightarrow> well_formed (snd (switch_content_type parse ct a st s))"
  by (simp add: handler_defs well_formed_initialize well_formed_appendToCodeBlock
      well_formed_appendToDataTable well_formed_appendToResultSection
      well_formed_appendToErrorSection well_formed_appendToTextSection
      well_formed_finalizeCodeBlock well_formed_finalizeDataTable
      well_formed_finalizeResultSection well_formed_finalizeErrorSection
      well_formed_finalizeTextSection)

lemma well_formed_finishStreaming:
  "well_formed s \<Longrightarrow> well_formed (snd (finishStreaming_sse s))"
  "well_formed s \<Longrightarrow> well_formed (snd (finishStreaming_ws s))"
  by (simp_all add: finishStreaming_sse_def finishStreaming_ws_def hideLoading_def Let_def
      split: option.splits)

lemma well_formed_handleStreamingMessage:
  "well_formed s \<Longrightarrow> well_formed (snd (handleStreamingMessage parse d s))"
  by (simp add: handleStreamingMessage_def snd_and_then well_formed_switch
      well_formed_finishStreaming split: sum.splits prod.splits)

lemma well_formed_createStreamingMessage:
  "well_formed s \<Longrightarrow> well_formed (snd (createStreamingMessage s))"
  by (simp add: createStreamingMessage_def)

lemma well_formed_handleWebSocketMessage:
  "well_formed s \<Longrightarrow> well_formed (snd (handleWebSocketMessage parse d s))"
  by (simp add: handleWebSocketMessage_def Let_def snd_and_then well_formed_switch
      well_formed_finishStreaming createStreamingMessage_def split: sum.splits prod.splits)

lemma well_formed_log [simp]:
  "well_formed (console_error e s) = well_formed s"
  "well_formed (reject e s) = well_formed s"
  "well_formed (resolve s) = well_formed s"
  by (simp_all add: console_error_def reject_def resolve_def)

lemma well_formed_onmessage_sse:
  "well_formed s \<Longrightarrow> well_formed (onmessage_sse parse frame s)"
  by (simp add: onmessage_sse_def split_beta well_formed_handleStreamingMessage
      split: option.splits sum.splits)

lemma well_formed_onmessage_ws:
  "well_formed s \<Longrightarrow> well_formed (onmessage_ws parse frame s)"
  by (simp add: onmessage_ws_def split_beta well_formed_handleWebSocketMessage
      split: option.splits sum.splits)

lemma well_formed_sendQuestion_sse:
  "well_formed s \<Longrightarrow> well_formed (sendQuestion_sse q s)"
  by (simp add: sendQuestion_sse_def streamQueryResults_def createStreamingMessage_def
      showLoading_def addMessage_def)

lemma well_formed_reads:
  "containers s' = containers s \<Longrightarrow> ac_code s' = ac_code s \<Longrightarrow> ac_data s' = ac_data s \<Longrightarrow>
   ac_result s' = ac_result s \<Longrightarrow> ac_error s' = ac_error s \<Longrightarrow> ac_text s' = ac_text s \<Longrightarrow>
   well_formed s' = well_formed s"
  by (simp add: well_formed_def data_node_def)

subsection \<open>Envelopes with a non-zero code\<close>

text \<open>
  C1 (as the specification states it: an envelope whose \<^verbatim>\<open>code\<close> is not zero is
  forwarded to the error path and an error section is rendered). Both \<^verbatim>\<open>onmessage\<close>
  callbacks guard the whole handling by \<^verbatim>\<open>if (data.code === 0)\<close> and have no
  \<^verbatim>\<open>else\<close>: on the frame \<^verbatim>\<open>{"code":1,"data":{...}}\<close> neither client changes
  anything. No section is created, no bubble is added, nothing is logged and
  the promise of the SSE client stays pending.
\<close>

theorem nonzero_code_renders_no_error_section:
  "onmessage_sse (parse_table [(frame_upstream_failure, envelope_upstream_failure)])
     frame_upstream_failure asked
   = asked
   \<and> containers asked = []
   \<and> onmessage_ws (parse_table [(frame_upstream_failure, envelope_upstream_failure)])
        frame_upstream_failure initial_state
     = initial_state
   \<and> containers initial_state = [] \<and> messages initial_state = []"
  by (simp add: onmessage_sse_def onmessage_ws_def parse_table_def
      envelope_upstream_failure_def initial_state_def asked_eq)

text \<open>
  C1, amended: for every frame that parses to an envelope whose \<^verbatim>\<open>code\<close> is not the
  number 0 (an absent \<^verbatim>\<open>code\<close> included), both clients drop the envelope: the
  state after the callback is the state before it, so the envelope's data reaches
  no content slot and no error section is rendered.
\<close>

theorem nonzero_code_dropped:
  assumes "parse (JStr frame) = Some envelope"
    and "get_prop envelope ''code'' = Inr code"
    and "code \<noteq> JNum 0"
  shows "onmessage_sse parse frame s = s \<and> onmessage_ws parse frame s = s"
  using assms by (simp add: onmessage_sse_def onmessage_ws_def)

theorem nonzero_code_dropped_witness:
  "parse_table [(frame_upstream_failure, envelope_upstream_failure)] (JStr frame_upstream_failure)
     = Some envelope_upstream_failure
   \<and> get_prop envelope_upstream_failure ''code'' = Inr (JNum 1)
   \<and> JNum 1 \<noteq> JNum 0
   \<and> onmessage_sse (parse_table [(frame_upstream_failure, envelope_upstream_failure)])
        frame_upstream_failure asked = asked
   \<and> onmessage_ws (parse_table [(frame_upstream_failure, envelope_upstream_failure)])
        frame_upstream_failure asked = asked"
proof -
  have p: "parse_table [(frame_upstream_failure, envelope_upstream_failure)]
             (JStr frame_upstream_failure) = Some envelope_upstream_failure"
    by (simp add: parse_table_def)
  have c: "get_prop envelope_upstream_failure ''code'' = Inr (JNum 1)"
    by (simp add: envelope_upstream_failure_def)
  have n: "JNum 1 \<noteq> JNum 0" by simp
  show ?thesis
    using p c n
      nonzero_code_dropped
        [where parse = "parse_table [(frame_upstream_failure, envelope_upstream_failure)]"
           and s = asked, OF p c n]
    by simp
qed

subsection \<open>The terminal message\<close>

text \<open>
  C2 (as the specification states it: after the message with \<^verbatim>\<open>finished == 1\<close> is
  dispatched, every slot still accumulating is finalized). \<^verbatim>\<open>finishStreaming\<close> does
  not look at \<^verbatim>\<open>this.activeComponents\<close>. A session whose only message is a result
  fragment carrying \<^verbatim>\<open>finished: 1\<close> ends, in both clients, with the result slot still
  referring to its section and the section without the class \<^verbatim>\<open>completed\<close>.
\<close>

theorem terminal_message_leaves_slot_open:
  "fst (handleStreamingMessage (parse_table []) message_result_terminal asked) = None
   \<and> ac_result (snd (handleStreamingMessage (parse_table []) message_result_terminal asked))
       = Some 0
   \<and> containers (snd (handleStreamingMessage (parse_table []) message_result_terminal asked))
       = [ResultContainer [''done''] False]
   \<and> currentStreamingMessage
        (snd (handleStreamingMessage (parse_table []) message_result_terminal asked)) = None
   \<and> fst (handleWebSocketMessage (parse_table []) message_result_terminal initial_state) = None
   \<and> ac_result (snd (handleWebSocketMessage (parse_table []) message_result_terminal
          initial_state)) = Some 0
   \<and> containers (snd (handleWebSocketMessage (parse_table []) message_result_terminal
          initial_state)) = [ResultContainer [''done''] False]
   \<and> currentStreamingMessage (snd (handleWebSocketMessage (parse_table [])
          message_result_terminal initial_state)) = None"
  by (simp add: message_defs handler_defs section_defs message_result_terminal_def
      asked_eq initial_state_def)

text \<open>
  C2, amended: the end of the session runs no finalize side effect. For every
  message with \<^verbatim>\<open>finished === 1\<close> that arrives while a streaming message is open
  and whose dispatch to its slot raises nothing and leaves the state \<open>s1\<close>, both
  clients handle the message without raising, and the section containers after
  it are exactly those of \<open>s1\<close>: the terminal message adds no copy button, no
  export button and no \<^verbatim>\<open>completed\<close> mark to any section.
\<close>

theorem terminal_message_finalizes_no_slot:
  assumes "destructure data = Inr (answer, JNum 1, content_type, content_status)"
    and "currentStreamingMessage s = Some m"
    and "switch_content_type parse content_type answer content_status s = (None, s1)"
  shows "fst (handleStreamingMessage parse data s) = None
       \<and> containers (snd (handleStreamingMessage parse data s)) = containers s1
       \<and> fst (handleWebSocketMessage parse data s) = None
       \<and> containers (snd (handleWebSocketMessage parse data s)) = containers s1"
proof -
  have c: "currentStreamingMessage s1 = Some m"
    using switch_keeps_current [of parse content_type answer content_status s] assms by simp
  show ?thesis
    using assms c
    by (simp add: handleStreamingMessage_def handleWebSocketMessage_def
        finishStreaming_sse_def finishStreaming_ws_def hideLoading_def Let_def)
qed

theorem terminal_message_finalizes_no_slot_witness:
  "destructure message_result_terminal
     = Inr (JStr ''done'', JNum 1, JStr ''result'', JStr ''in_progress'')
   \<and> currentStreamingMessage asked = Some 1
   \<and> switch_content_type (parse_table []) (JStr ''result'') (JStr ''done'')
        (JStr ''in_progress'') asked
       = (None, asked\<lparr>containers := [ResultContainer [''done''] False],
                       messages := [Bubble ''q'' ''user'', StreamingMessage [0]],
                       ac_result := Some 0\<rparr>)
   \<and> fst (handleStreamingMessage (parse_table []) message_result_terminal asked) = None
   \<and> containers (snd (handleStreamingMessage (parse_table []) message_result_terminal asked))
       = [ResultContainer [''done''] False]
   \<and> fst (handleWebSocketMessage (parse_table []) message_result_terminal asked) = None
   \<and> containers (snd (handleWebSocketMessage (parse_table []) message_result_terminal asked))
       = [ResultContainer [''done''] False]"
proof -
  have d: "destructure message_result_terminal
             = Inr (JStr ''done'', JNum 1, JStr ''result'', JStr ''in_progress'')"
    by (simp add: destructure_def message_result_terminal_def)
  have c: "currentStreamingMessage asked = Some 1"
    by (simp add: asked_eq)
  have sw: "switch_content_type (parse_table []) (JStr ''result'') (JStr ''done'')
              (JStr ''in_progress'') asked
            = (None, asked\<lparr>containers := [ResultContainer [''done''] False],
                            messages := [Bubble ''q'' ''user'', StreamingMessage [0]],
                            ac_result := Some 0\<rparr>)"
    by (simp add: handler_defs section_defs asked_eq)
  show ?thesis
    using d c sw
      terminal_message_finalizes_no_slot [where parse = "parse_table []", OF d c sw]
    by simp
qed

subsection \<open>An end for a slot that is not open\<close>

text \<open>
  C3 (as the specification states it: \<^verbatim>\<open>end\<close> arriving for an absent slot
  initializes the section, applies the fragment and finalizes). Every
  \<^verbatim>\<open>finalize...\<close> method is guarded by \<^verbatim>\<open>if (this.activeComponents.x)\<close>, and the
  \<^verbatim>\<open>end\<close> case of a handler does not pass the answer on. In a session just opened, an
  \<^verbatim>\<open>end\<close> message with the fragment \<^verbatim>\<open>x\<close> for the code slot leaves the state as it
  was: no section, no copy button.
\<close>

theorem end_while_absent_creates_no_section:
  "handleCodeContent (JStr ''x'') (JStr ''end'') asked = (None, asked)
   \<and> ac_code asked = None \<and> containers asked = []"
  by (simp add: handleCodeContent_def finalizeCodeBlock_def asked_eq)

text \<open>
  C3, amended: for every content type, a message with the status \<^verbatim>\<open>end\<close> arriving
  while the slot of that type is not open is a no-op: nothing is initialized,
  nothing is finalized, the fragment is not applied and nothing is raised.
\<close>

theorem end_while_absent_is_noop:
  "(ac_code s = None \<longrightarrow> handleCodeContent answer (JStr ''end'') s = (None, s))
 \<and> (ac_data s = None \<longrightarrow> handleDataContent parse answer (JStr ''end'') s = (None, s))
 \<and> (ac_result s = None \<longrightarrow> handleResultContent answer (JStr ''end'') s = (None, s))
 \<and> (ac_error s = None \<longrightarrow> handleErrorContent answer (JStr ''end'') s = (None, s))
 \<and> (ac_text s = None \<longrightarrow> handleTextContent answer (JStr ''end'') s = (None, s))"
  by (simp add: handleCodeContent_def handleDataContent_def handleResultContent_def
      handleErrorContent_def handleTextContent_def finalizeCodeBlock_def finalizeDataTable_def
      finalizeResultSection_def finalizeErrorSection_def finalizeTextSection_def)

theorem end_while_absent_is_noop_witness:
  "ac_code asked = None \<and> ac_data asked = None \<and> ac_result asked = None
   \<and> ac_error asked = None \<and> ac_text asked = None
   \<and> handleCodeContent (JStr ''x'') (JStr ''end'') asked = (None, asked)
   \<and> handleDataContent (parse_table []) (JStr ''x'') (JStr ''end'') asked = (None, asked)
   \<and> handleResultContent (JStr ''x'') (JStr ''end'') asked = (None, asked)
   \<and> handleErrorContent (JStr ''x'') (JStr ''end'') asked = (None, asked)
   \<and> handleTextContent (JStr ''x'') (JStr ''end'') asked = (None, asked)"
proof -
  have a: "ac_code asked = None \<and> ac_data asked = None \<and> ac_result asked = None
             \<and> ac_error asked = None \<and> ac_text asked = None"
    by (simp add: asked_eq)
  show ?thesis
    using a end_while_absent_is_noop [of asked "JStr ''x''" "parse_table []"]
    by simp
qed

subsection \<open>Normalization of the content type\<close>

text \<open>
  C4: the \<^verbatim>\<open>switch\<close> on the content type is total and is the normalization of the
  specification: for every value of \<^verbatim>\<open>content_type\<close> (a string, or anything else,
  \<^verbatim>\<open>undefined\<close> for an absent field) the message goes to the handler of exactly one
  slot, the one \<open>normalize_content_type\<close> names, and every value that is not one of
  the five names goes to the text slot.
\<close>

theorem content_type_normalization_total:
  "switch_content_type parse content_type answer content_status s
     = slot_handler parse (normalize_content_type content_type) answer content_status s
   \<and> (content_type \<notin> {JStr ''code'', JStr ''data'', JStr ''result'', JStr ''error'', JStr ''text''}
        \<longrightarrow> normalize_content_type content_type = Text
            \<and> switch_content_type parse content_type answer content_status s
                = handleTextContent answer content_status s)"
  by (cases content_type) (simp_all add: switch_content_type_def slot_named_def)

theorem content_type_normalization_total_witness:
  "JUndefined \<notin> {JStr ''code'', JStr ''data'', JStr ''result'', JStr ''error'', JStr ''text''}
   \<and> normalize_content_type JUndefined = Text
   \<and> switch_content_type (parse_table []) JUndefined (JStr ''hello'') (JStr ''in_progress'') asked
       = handleTextContent (JStr ''hello'') (JStr ''in_progress'') asked
   \<and> JStr ''chart'' \<notin> {JStr ''code'', JStr ''data'', JStr ''result'', JStr ''error'', JStr ''text''}
   \<and> normalize_content_type (JStr ''chart'') = Text
   \<and> switch_content_type (parse_table []) (JStr ''chart'') (JStr ''hello'') (JStr ''in_progress'') asked
       = handleTextContent (JStr ''hello'') (JStr ''in_progress'') asked
   \<and> switch_content_type (parse_table []) (JStr ''data'') (JStr ''hello'') (JStr ''in_progress'') asked
       = slot_handler (parse_table []) Data (JStr ''hello'') (JStr ''in_progress'') asked"
proof -
  have u: "JUndefined \<notin> {JStr ''code'', JStr ''data'', JStr ''result'', JStr ''error'', JStr ''text''}"
    by simp
  have c: "JStr ''chart'' \<notin> {JStr ''code'', JStr ''data'', JStr ''result'', JStr ''error'', JStr ''text''}"
    by simp
  have n: "normalize_content_type (JStr ''data'') = Data"
    by (simp add: slot_named_def)
  show ?thesis
    using u c n
      content_type_normalization_total
        [of "parse_table []" JUndefined "JStr ''hello''" "JStr ''in_progress''" asked]
      content_type_normalization_total
        [of "parse_table []" "JStr ''chart''" "JStr ''hello''" "JStr ''in_progress''" asked]
      content_type_normalization_total
        [of "parse_table []" "JStr ''data''" "JStr ''hello''" "JStr ''in_progress''" asked]
    by simp
qed

subsection \<open>A status that is absent or not recognized\<close>



subsection \<open>A second end\<close>

text \<open>
  C6: finalization is idempotent. For every content type and every state, an
  \<^verbatim>\<open>end\<close> message raises nothing and leaves the slot closed, and a second \<^verbatim>\<open>end\<close>
  message for the same slot after it raises nothing and leaves the state exactly
  as the first one left it: no second copy button, export button or mark.
\<close>

theorem second_end_is_noop:
  "fst (handleCodeContent a (JStr ''end'') s) = None
   \<and> ac_code (snd (handleCodeContent a (JStr ''end'') s)) = None
   \<and> handleCodeContent a' (JStr ''end'') (snd (handleCodeContent a (JStr ''end'') s))
       = (None, snd (handleCodeContent a (JStr ''end'') s))
   \<and> fst (handleDataContent parse a (JStr ''end'') s) = None
   \<and> ac_data (snd (handleDataContent parse a (JStr ''end'') s)) = None
   \<and> handleDataContent parse a' (JStr ''end'') (snd (handleDataContent parse a (JStr ''end'') s))
       = (None, snd (handleDataContent parse a (JStr ''end'') s))
   \<and> fst (handleResultContent a (JStr ''end'') s) = None
   \<and> ac_result (snd (handleResultContent a (JStr ''end'') s)) = None
   \<and> handleResultContent a' (JStr ''end'') (snd (handleResultContent a (JStr ''end'') s))
       = (None, snd (handleResultContent a (JStr ''end'') s))
   \<and> fst (handleErrorContent a (JStr ''end'') s) = None
   \<and> ac_error (snd (handleErrorContent a (JStr ''end'') s)) = None
   \<and> handleErrorContent a' (JStr ''end'') (snd (handleErrorContent a (JStr ''end'') s))
       = (None, snd (handleErrorContent a (JStr ''end'') s))
   \<and> fst (handleTextContent a (JStr ''end'') s) = None
   \<and> ac_text (snd (handleTextContent a (JStr ''end'') s)) = None
   \<and> handleTextContent a' (JStr ''end'') (snd (handleTextContent a (JStr ''end'') s))
       = (None, snd (handleTextContent a (JStr ''end'') s))"
  by (simp add: handleCodeContent_def handleDataContent_def handleResultContent_def
      handleErrorContent_def handleTextContent_def finalizeCodeBlock_def finalizeDataTable_def
      finalizeResultSection_def finalizeErrorSection_def finalizeTextSection_def
      split: option.splits)

subsection \<open>The header of a data table\<close>

text \<open>
  C7: in a data section just started, the fragment \<^verbatim>\<open>[{"a":1,"b":2}]\<close> followed by
  the fragment \<^verbatim>\<open>[{"a":3,"b":4}]\<close> (\<^verbatim>\<open>JSON.parse\<close> giving the two arrays of one
  record each) leaves one header row, \<^verbatim>\<open>a, b\<close>, and the two data rows \<^verbatim>\<open>1, 2\<close> and
  \<^verbatim>\<open>3, 4\<close> in this order, with nothing else in the section; and whatever fragments
  follow in the same section, the header stays this one row.
\<close>

theorem data_table_header_lock_in:
  assumes "parse (JStr fragment_ab12) = Some records_ab12"
    and "parse (JStr fragment_ab34) = Some records_ab34"
    and "currentStreamingMessage s = Some m"
    and "s0 = snd (handleDataContent parse answer (JStr ''start'') s)"
    and "s2 = append_fragments parse [JStr fragment_ab12, JStr fragment_ab34] s0"
  shows "containers s2
           = containers s @ [DataContainer [[''a'', ''b'']]
                               [[JNum 1, JNum 2], [JNum 3, JNum 4]] []]
       \<and> ac_data s2 = Some \<lparr>dc_container = length (containers s), headerInitialized = True\<rparr>
       \<and> (\<forall>later. map header_rows (containers (append_fragments parse later s2))
                     = map header_rows (containers s) @ [[[''a'', ''b'']]])"
proof -
  have a: "containers s2
           = containers s @ [DataContainer [[''a'', ''b'']]
                               [[JNum 1, JNum 2], [JNum 3, JNum 4]] []]
       \<and> ac_data s2 = Some \<lparr>dc_container = length (containers s), headerInitialized = True\<rparr>"
    using assms
    by (simp add: handleDataContent_def initializeDataTable_def appendChild_current_def
        appendToDataTable_def renderDataTable_def init_header_def records_ab12_def
        records_ab34_def update_node_def js_or_def)
  then have "map header_rows (containers (append_fragments parse later s2))
                     = map header_rows (containers s) @ [[[''a'', ''b'']]]" for later
    using locked_append_fragments
      [of s2 "\<lparr>dc_container = length (containers s), headerInitialized = True\<rparr>" parse later]
    by simp
  with a show ?thesis by blast
qed

theorem data_table_header_lock_in_witness:
  "parse_ab (JStr fragment_ab12) = Some records_ab12
   \<and> parse_ab (JStr fragment_ab34) = Some records_ab34
   \<and> currentStreamingMessage asked = Some 1
   \<and> containers (append_fragments parse_ab [JStr fragment_ab12, JStr fragment_ab34]
        (snd (handleDataContent parse_ab JUndefined (JStr ''start'') asked)))
       = [DataContainer [[''a'', ''b'']] [[JNum 1, JNum 2], [JNum 3, JNum 4]] []]
   \<and> (\<forall>later. map header_rows (containers (append_fragments parse_ab later
        (append_fragments parse_ab [JStr fragment_ab12, JStr fragment_ab34]
          (snd (handleDataContent parse_ab JUndefined (JStr ''start'') asked)))))
       = [[[''a'', ''b'']]])"
proof -
  have p1: "parse_ab (JStr fragment_ab12) = Some records_ab12"
    by (simp add: parse_ab_def parse_table_def)
  have p2: "parse_ab (JStr fragment_ab34) = Some records_ab34"
    by (simp add: parse_ab_def parse_table_def fragment_ab12_def fragment_ab34_def)
  have c: "currentStreamingMessage asked = Some 1"
    by (simp add: asked_eq)
  have e: "containers asked = []"
    by (simp add: asked_eq)
  show ?thesis
    using p1 p2 c e
      data_table_header_lock_in [where parse = parse_ab and answer = JUndefined, OF p1 p2 c refl refl]
    by simp
qed

subsection \<open>Fragments of the data slot that are no tables\<close>

text \<open>The fallback, in a state where the data section exists and its node is a table.\<close>

lemma non_json_fragment_step:
  assumes "parse (JStr fragment) = None"
    and "status \<noteq> JStr ''start''" and "status \<noteq> JStr ''end''"
    and "(if ac_data s = None then initializeDataTable s else (None, s)) = (None, s0)"
    and "ac_data s0 = Some dc"
    and "dc_container dc < length (containers s0)"
    and "containers s0 ! dc_container dc = DataContainer h b t"
  shows "handleDataContent parse (JStr fragment) status s
           = (None, s0\<lparr>containers := (containers s0)
                         [dc_container dc := DataContainer h b (t @ [DataText (markup fragment)])]\<rparr>)"
  using assms
  by (simp add: handleDataContent_def appendToDataTable_def renderDataTableAsText_def
      update_node_def)

text \<open>
  C8 (as stated: every string fragment delivered under the content type
  \<^verbatim>\<open>data\<close> that does not parse as JSON is appended to the data section as text).
  The \<^verbatim>\<open>start\<close> and \<^verbatim>\<open>end\<close> cases of \<^verbatim>\<open>handleDataContent\<close> call
  \<^verbatim>\<open>initializeDataTable()\<close> and \<^verbatim>\<open>finalizeDataTable()\<close> without the answer. The
  fragment \<^verbatim>\<open>not json\<close> on a \<^verbatim>\<open>start\<close> message leaves an empty table, and on an
  \<^verbatim>\<open>end\<close> message for the open slot (through the handler, and through the whole
  message handler of the SSE client) it leaves the table with its export button
  and no text: the fragment is discarded.
\<close>

theorem non_json_fragment_on_start_or_end_discarded:
  "parse_table [] (JStr ''not json'') = None
   \<and> handleDataContent (parse_table []) (JStr ''not json'') (JStr ''start'') asked
       = (None, asked\<lparr>containers := [DataContainer [] [] []],
                       messages := [Bubble ''q'' ''user'', StreamingMessage [0]],
                       ac_data := Some \<lparr>dc_container = 0, headerInitialized = False\<rparr>\<rparr>)
   \<and> handleDataContent (parse_table []) (JStr ''not json'') (JStr ''end'')
        (snd (initializeDataTable asked))
       = (None, asked\<lparr>containers := [DataContainer [] [] [ExportButton]],
                       messages := [Bubble ''q'' ''user'', StreamingMessage [0]]\<rparr>)
   \<and> handleStreamingMessage (parse_table []) message_data_end (snd (initializeDataTable asked))
       = (None, asked\<lparr>containers := [DataContainer [] [] [ExportButton]],
                       messages := [Bubble ''q'' ''user'', StreamingMessage [0]]\<rparr>)"
  by (simp add: message_defs handler_defs section_defs parse_table_def message_data_end_def
      asked_eq)

text \<open>
  C8, amended: a string fragment that \<^verbatim>\<open>JSON.parse\<close> rejects, delivered to the data
  slot by a message whose status is neither \<^verbatim>\<open>start\<close> nor \<^verbatim>\<open>end\<close>, is rendered as
  text. In every well-formed state with a streaming message open, let \<open>s0\<close> be the
  state in which the data section exists (the state itself when the slot is open,
  else the state with the section \<^verbatim>\<open>initializeDataTable\<close> creates). Then the slot
  refers to a table of \<open>s0\<close>, nothing is raised, and the result is \<open>s0\<close> with one
  \<^verbatim>\<open>data-text\<close> block, the formatted fragment, appended to that table's container:
  the fragment is not discarded and no other section, an error section in
  particular, appears.
\<close>

theorem non_json_data_fragment_rendered_as_text:
  assumes "parse (JStr fragment) = None"
    and "status \<noteq> JStr ''start''" and "status \<noteq> JStr ''end''"
    and "well_formed s"
    and "currentStreamingMessage s = Some m"
    and "s0 = (if ac_data s = None then snd (initializeDataTable s) else s)"
  shows "\<exists>dc h b t.
           ac_data s0 = Some dc \<and> dc_container dc < length (containers s0)
           \<and> containers s0 ! dc_container dc = DataContainer h b t
           \<and> handleDataContent parse (JStr fragment) status s
               = (None, s0\<lparr>containers := (containers s0)
                             [dc_container dc :=
                                DataContainer h b (t @ [DataText (markup fragment)])]\<rparr>)"
proof -
  have i: "(if ac_data s = None then initializeDataTable s else (None, s)) = (None, s0)"
    using assms(5,6) by (simp add: initializeDataTable_def appendChild_current_def)
  have w0: "well_formed s0"
    using assms(4,6) by (simp add: well_formed_initialize)
  have "ac_data s0 \<noteq> None"
    using assms(5,6) by (auto simp: initializeDataTable_def appendChild_current_def)
  then obtain dc where dc: "ac_data s0 = Some dc" by blast
  from w0 dc have l: "dc_container dc < length (containers s0)"
    and o: "is_open_data (containers s0 ! dc_container dc)"
    by (simp_all add: well_formed_def slot_ok_def data_node_def)
  from o obtain h b t where k: "containers s0 ! dc_container dc = DataContainer h b t"
    by (cases "containers s0 ! dc_container dc") simp_all
  from non_json_fragment_step [where parse = parse, OF assms(1-3) i dc l k] dc l k
  show ?thesis by blast
qed

theorem non_json_data_fragment_rendered_as_text_witness:
  "parse_table [] (JStr ''not json'') = None
   \<and> JStr ''in_progress'' \<noteq> JStr ''start'' \<and> JStr ''in_progress'' \<noteq> JStr ''end''
   \<and> well_formed asked
   \<and> currentStreamingMessage asked = Some 1
   \<and> handleDataContent (parse_table []) (JStr ''not json'') (JStr ''in_progress'') asked
       = (None, asked\<lparr>containers := [DataContainer [] [] [DataText ''not json'']],
                       messages := [Bubble ''q'' ''user'', StreamingMessage [0]],
                       ac_data := Some \<lparr>dc_container = 0, headerInitialized = False\<rparr>\<rparr>)"
proof -
  let ?s0 = "asked\<lparr>containers := [DataContainer [] [] []],
                   messages := [Bubble ''q'' ''user'', StreamingMessage [0]],
                   ac_data := Some \<lparr>dc_container = 0, headerInitialized = False\<rparr>\<rparr>"
  have p: "parse_table [] (JStr ''not json'') = None"
    by (simp add: parse_table_def)
  have n: "JStr ''in_progress'' \<noteq> JStr ''start''" "JStr ''in_progress'' \<noteq> JStr ''end''"
    by simp_all
  have r: "well_formed asked"
    unfolding asked_def by (intro well_formed_sendQuestion_sse well_formed_initial)
  have c: "currentStreamingMessage asked = Some 1"
    by (simp add: asked_eq)
  have i: "?s0 = (if ac_data asked = None then snd (initializeDataTable asked) else asked)"
    by (simp add: initializeDataTable_def appendChild_current_def asked_eq)
  have m: "markup ''not json'' = ''not json''"
    by (simp add: markup_def starts_with_def)
  from non_json_data_fragment_rendered_as_text [where parse = "parse_table []", OF p n r c i]
  obtain dc h b t where
    1: "ac_data ?s0 = Some dc" and 2: "containers ?s0 ! dc_container dc = DataContainer h b t"
    and 3: "handleDataContent (parse_table []) (JStr ''not json'') (JStr ''in_progress'') asked
              = (None, ?s0\<lparr>containers := (containers ?s0)
                   [dc_container dc := DataContainer h b (t @ [DataText (markup ''not json'')])]\<rparr>)"
    by blast
  from 1 have dc: "dc = \<lparr>dc_container = 0, headerInitialized = False\<rparr>" by simp
  from 2 dc have hbt: "h = [] \<and> b = [] \<and> t = []" by simp
  from 3 dc hbt m have
    "handleDataContent (parse_table []) (JStr ''not json'') (JStr ''in_progress'') asked
       = (None, asked\<lparr>containers := [DataContainer [] [] [DataText ''not json'']],
                       messages := [Bubble ''q'' ''user'', StreamingMessage [0]],
                       ac_data := Some \<lparr>dc_container = 0, headerInitialized = False\<rparr>\<rparr>)"
    by simp
  with p n r c show ?thesis by blast
qed

text \<open>
  C10 (as stated: a fragment of the data slot that parses to a JSON scalar, a
  number, a string, a boolean or \<^verbatim>\<open>null\<close>, is discarded without a row and without
  the text fallback). For \<^verbatim>\<open>null\<close> this is not what happens: \<^verbatim>\<open>typeof null\<close> is
  \<^verbatim>\<open>'object'\<close>, so \<^verbatim>\<open>renderDataTable\<close> takes the branch of a single object,
  \<^verbatim>\<open>Object.keys(null)\<close> raises, and the \<^verbatim>\<open>catch\<close> of \<^verbatim>\<open>appendToDataTable\<close> renders the
  fragment as text.
\<close>

theorem null_data_fragment_rendered_as_text:
  "appendToDataTable (parse_table [(''null'', JNull)]) (JStr ''null'') asked
     = (None, asked\<lparr>containers := [DataContainer [] [] [DataText ''null'']],
                     messages := [Bubble ''q'' ''user'', StreamingMessage [0]],
                     ac_data := Some \<lparr>dc_container = 0, headerInitialized = False\<rparr>\<rparr>)"
  by (simp add: section_defs parse_table_def asked_eq)

text \<open>
  C10, amended: a fragment of the data slot that parses to a number, a string or a
  boolean is discarded: no row is added and no text is appended. The append does
  what its first statement does (the section is created when the slot is not
  open) and nothing else.
\<close>

theorem scalar_data_fragment_discarded:
  assumes "parse fragment = Some v"
    and "v = JNum n \<or> v = JStr str \<or> v = JBool b"
  shows "appendToDataTable parse fragment s
           = (if ac_data s = None then initializeDataTable s else (None, s))"
proof -
  have r: "renderDataTable v s1 = (if ac_data s1 = None then (Some TypeError, s1) else (None, s1))"
    for s1
    using assms(2) by (auto simp: renderDataTable_def split: option.splits)
  have i: "ac_data (snd (initializeDataTable s)) \<noteq> None" if "fst (initializeDataTable s) = None"
    using that by (auto simp: initializeDataTable_def split: sum.splits)
  show ?thesis
  proof (cases "ac_data s")
    case None
    obtain e s1 where is1: "initializeDataTable s = (e, s1)"
      by (cases "initializeDataTable s")
    show ?thesis
      using None is1 i assms(1) r [of s1]
      by (cases e) (auto simp: appendToDataTable_def)
  next
    case (Some dc)
    then show ?thesis
      using assms(1) r [of s] by (simp add: appendToDataTable_def)
  qed
qed

theorem scalar_data_fragment_discarded_witness:
  "parse_table [(''42'', JNum 42)] (JStr ''42'') = Some (JNum 42)
   \<and> appendToDataTable (parse_table [(''42'', JNum 42)]) (JStr ''42'') asked
       = (None, asked\<lparr>containers := [DataContainer [] [] []],
                       messages := [Bubble ''q'' ''user'', StreamingMessage [0]],
                       ac_data := Some \<lparr>dc_container = 0, headerInitialized = False\<rparr>\<rparr>)
   \<and> appendToDataTable (parse_table [(''42'', JNum 42)]) (JStr ''42'')
        (snd (initializeDataTable asked))
       = (None, snd (initializeDataTable asked))"
proof -
  have p: "parse_table [(''42'', JNum 42)] (JStr ''42'') = Some (JNum 42)"
    by (simp add: parse_table_def)
  have v: "JNum 42 = JNum 42 \<or> JNum 42 = JStr [] \<or> JNum 42 = JBool False"
    by simp
  have i: "initializeDataTable asked
             = (None, asked\<lparr>containers := [DataContainer [] [] []],
                             messages := [Bubble ''q'' ''user'', StreamingMessage [0]],
                             ac_data := Some \<lparr>dc_container = 0, headerInitialized = False\<rparr>\<rparr>)"
    by (simp add: initializeDataTable_def appendChild_current_def asked_eq)
  have a: "ac_data asked = None"
    by (simp add: asked_eq)
  show ?thesis
    using p i a
      scalar_data_fragment_discarded
        [where parse = "parse_table [(''42'', JNum 42)]" and s = asked, OF p v]
      scalar_data_fragment_discarded
        [where parse = "parse_table [(''42'', JNum 42)]" and s = "snd (initializeDataTable asked)",
         OF p v]
    by simp
qed

subsection \<open>Sections and sessions\<close>

text \<open>
  C9 (no fragment is accumulated into a section of another session): the code
  does not keep this. \<^verbatim>\<open>finishStreaming\<close> clears \<^verbatim>\<open>this.currentStreamingMessage\<close>
  (and closes the event source) but leaves \<^verbatim>\<open>this.activeComponents\<close> as it is. In
  the WebSocket client, a first session whose only message is the code fragment
  \<^verbatim>\<open>a\<close> with \<^verbatim>\<open>finished: 1\<close> leaves the code slot open; the code fragment \<^verbatim>\<open>b\<close> of
  the next session opens a new streaming message, which stays empty, and is
  appended to the section of the first session, which then reads \<^verbatim>\<open>ab\<close>. The SSE
  client does the same across two questions.
\<close>

theorem stale_section_receives_next_session:
  "handleWebSocketMessage (parse_table []) message_code_b
     (snd (handleWebSocketMessage (parse_table []) message_code_a_terminal initial_state))
   = (None, initial_state\<lparr>containers := [CodeContainer ''ab'' 0],
                          messages := [StreamingMessage [0], StreamingMessage []],
                          currentStreamingMessage := Some 1, ac_code := Some 0\<rparr>)
   \<and> handleStreamingMessage (parse_table []) message_code_b
       (sendQuestion_sse ''q2''
          (snd (handleStreamingMessage (parse_table []) message_code_a_terminal
                  (sendQuestion_sse ''q1'' initial_state))))
     = (None, initial_state\<lparr>containers := [CodeContainer ''ab'' 0],
                            messages := [Bubble ''q1'' ''user'', StreamingMessage [0],
                                         Bubble ''q2'' ''user'', StreamingMessage []],
                            currentStreamingMessage := Some 3, ac_code := Some 0,
                            loading := True, eventSource := True\<rparr>)"
  by (simp add: message_defs handler_defs section_defs message_code_a_terminal_def
      message_code_b_def initial_state_def sendQuestion_sse_def streamQueryResults_def
      showLoading_def addMessage_def)

end
